theory Spec2Isabelle
  imports Main "HOL-Library.Char_ord" "HOL-Library.List_Lexorder"
begin

section \<open>Python values and exceptions\<close>

text \<open>
  Exceptions are values. \<open>OSError\<close> also stands for \<open>IOError\<close>. \<open>SystemExit\<close> is raised by
  \<open>argparse\<close> on a rejected command line. \<open>DirectiveError template argument\<close> is what
  \<open>self.error(template.format(argument))\<close> builds in a directive. \<open>OptionError name\<close> is the
  error that ends a directive whose option \<open>name\<close> is not accepted.
\<close>

datatype error =
    TypeError
  | AttributeError
  | OSError
  | KeyError
  | ValueError
  | IndexError
  | SystemExit nat
  | DirectiveError string string
  | OptionError string

text \<open>
  The data that flows through the route dictionaries. \<open>VOpaque\<close> is any other object
  (a compiled regular expression, a class, a set): \<open>json.dump\<close> rejects it.
\<close>

datatype pyvalue =
    VNone
  | VBool bool
  | VInt int
  | VStr string
  | VTuple "pyvalue list"
  | VList "pyvalue list"
  | VDict "(string \<times> pyvalue) list"
  | VOpaque string

type_synonym pydict = "(string \<times> pyvalue) list"

text \<open>Truth value of an object, as \<open>if x:\<close> tests it.\<close>

fun truthy :: "pyvalue \<Rightarrow> bool" where
  "truthy VNone = False"
| "truthy (VBool b) = b"
| "truthy (VInt i) = (i \<noteq> 0)"
| "truthy (VStr s) = (s \<noteq> [])"
| "truthy (VTuple xs) = (xs \<noteq> [])"
| "truthy (VList xs) = (xs \<noteq> [])"
| "truthy (VDict d) = (d \<noteq> [])"
| "truthy (VOpaque r) = True"

text \<open>\<open>s.startswith(p)\<close>\<close>

definition startswith :: "string \<Rightarrow> string \<Rightarrow> bool" where
  "startswith s p = (take (length p) s = p)"

text \<open>
  \<open>s.lstrip()\<close> on a string, a character being a code point below 256: the characters
  for which \<open>str.isspace\<close> holds are dropped, that is the six ASCII whitespace characters,
  the separators U+001C to U+001F, U+0085 and U+00A0.
\<close>

definition is_space :: "char \<Rightarrow> bool" where
  "is_space c =
     (c \<in> {CHR '' '', CHR 0x09, CHR 0x0A, CHR 0x0B, CHR 0x0C, CHR 0x0D,
            CHR 0x1C, CHR 0x1D, CHR 0x1E, CHR 0x1F, CHR 0x85, CHR 0xA0})"

definition lstrip :: "string \<Rightarrow> string" where
  "lstrip s = dropWhile is_space s"

section \<open>View callables as objects with optional attributes\<close>

text \<open>
  A view is whatever the registry hands out: a function, a wrapper around one, a class,
  an instance, or \<open>None\<close>. Only the attributes that \<open>extract.py\<close> reads are kept; an absent
  attribute is \<open>None\<close> at the HOL level. The results of the \<open>inspect\<close> calls made on an
  object are recorded with it, exceptions included. Objects are finite terms, so a chain
  of \<open>__wraps__\<close> / \<open>__wrapped__\<close> links always ends (a decorator wraps an object that
  existed before it); a cyclic chain is outside this model.
\<close>

record code =
  co_name :: string
  co_freevars :: "string list"

datatype renderer = Renderer (renderer_name: string)

text \<open>
  What a closure cell holds: \<open>None\<close>, a renderer helper (an object with a \<open>name\<close>), or
  some other object, which has no \<open>name\<close> attribute.
\<close>

datatype cell_contents = CNone | CRenderer renderer | COther string

text \<open>A predicate object: its class name, and its \<open>val\<close> attribute when it has one.\<close>

datatype predicate = Predicate (class_name: string) (val: "pyvalue option")

record obj_attrs =
  code_attr :: "code option"
  closure_attr :: "cell_contents list option"
  predicates_attr :: "predicate list option"
  getsourcefile :: "error + string option"
  getsourcelines :: "error + (string list \<times> int)"
  getdoc :: "string option"
  getmodule :: "string option"

datatype pyobj =
    PyNone
  | PyObj "pyobj option" "pyobj option" obj_attrs

text \<open>\<open>hasattr(o, "__wraps__")\<close> and \<open>o.__wraps__\<close>; likewise \<open>__wrapped__\<close>.\<close>

fun attr_wraps :: "pyobj \<Rightarrow> pyobj option" where
  "attr_wraps PyNone = None"
| "attr_wraps (PyObj w w' a) = w"

fun attr_wrapped :: "pyobj \<Rightarrow> pyobj option" where
  "attr_wrapped PyNone = None"
| "attr_wrapped (PyObj w w' a) = w'"

fun attr_code :: "pyobj \<Rightarrow> code option" where
  "attr_code PyNone = None"
| "attr_code (PyObj w w' a) = code_attr a"

text \<open>\<open>getattr(o, "__closure__", None)\<close>: the contents of the cells.\<close>

fun attr_closure :: "pyobj \<Rightarrow> cell_contents list option" where
  "attr_closure PyNone = None"
| "attr_closure (PyObj w w' a) = closure_attr a"

text \<open>\<open>getattr(o, "__predicates__", [])\<close>\<close>

fun attr_predicates :: "pyobj \<Rightarrow> predicate list" where
  "attr_predicates PyNone = []"
| "attr_predicates (PyObj w w' a) = (case predicates_attr a of None \<Rightarrow> [] | Some ps \<Rightarrow> ps)"

text \<open>
  The \<open>inspect\<close> module on an object. On \<open>None\<close>, \<open>inspect.getsourcefile\<close> raises
  \<open>TypeError\<close> and \<open>inspect.getmodule\<close> returns \<open>None\<close>. \<open>inspect_getmodule\<close> gives the
  \<open>__name__\<close> of the module found.
\<close>

fun inspect_getsourcefile :: "pyobj \<Rightarrow> error + string option" where
  "inspect_getsourcefile PyNone = Inl TypeError"
| "inspect_getsourcefile (PyObj w w' a) = getsourcefile a"

fun inspect_getsourcelines :: "pyobj \<Rightarrow> error + (string list \<times> int)" where
  "inspect_getsourcelines PyNone = Inl TypeError"
| "inspect_getsourcelines (PyObj w w' a) = getsourcelines a"

fun inspect_getdoc :: "pyobj \<Rightarrow> string option" where
  "inspect_getdoc PyNone = None"
| "inspect_getdoc (PyObj w w' a) = getdoc a"

fun inspect_getmodule :: "pyobj \<Rightarrow> string option" where
  "inspect_getmodule PyNone = None"
| "inspect_getmodule (PyObj w w' a) = getmodule a"

section \<open>extract.py: predicates, renderer, docstring\<close>

text \<open>
  The functions keep their names; a leading underscore is dropped (\<open>_get_unwrapped\<close> is
  \<open>get_unwrapped\<close>, \<open>_render_route\<close> is \<open>render_route\<close>).
\<close>

text \<open>
  \<open>get_view_predicates\<close>: the loop appends a pair for each predicate that has a
  \<open>val\<close> attribute.
\<close>

fun predicates_loop :: "predicate list \<Rightarrow> (string \<times> pyvalue) list \<Rightarrow> (string \<times> pyvalue) list" where
  "predicates_loop [] predicates = predicates"
| "predicates_loop (p # ps) predicates =
     (case val p of
        Some v \<Rightarrow> predicates_loop ps (predicates @ [(class_name p, v)])
      | None \<Rightarrow> predicates_loop ps predicates)"

definition get_view_predicates :: "pyobj \<Rightarrow> (string \<times> pyvalue) list" where
  "get_view_predicates view = predicates_loop (attr_predicates view) []"

text \<open>
  \<open>get_view_renderer\<close>: the \<open>while\<close> loop follows \<open>__wraps__\<close> until the object has no
  such attribute or is the wrapper whose code is named \<open>rendered_view\<close>.
\<close>

fun unwrap_to_rendered_view :: "pyobj \<Rightarrow> pyobj" where
  "unwrap_to_rendered_view PyNone = PyNone"
| "unwrap_to_rendered_view (PyObj w w' a) =
     (case w of
        None \<Rightarrow> PyObj w w' a
      | Some inner \<Rightarrow>
          (if (case code_attr a of None \<Rightarrow> True | Some c \<Rightarrow> co_name c \<noteq> ''rendered_view'')
           then unwrap_to_rendered_view inner
           else PyObj w w' a))"

text \<open>
  The \<open>for\<close> loop over \<open>zip(co_freevars, __closure__)\<close>; falling off its end returns
  \<open>None\<close>.
\<close>

fun closure_lookup :: "(string \<times> cell_contents) list \<Rightarrow> cell_contents" where
  "closure_lookup [] = CNone"
| "closure_lookup ((name, cell_contents) # rest) =
     (if name = ''view_renderer'' then cell_contents else closure_lookup rest)"

definition get_view_renderer :: "pyobj \<Rightarrow> error + cell_contents" where
  "get_view_renderer view0 =
     (let view = unwrap_to_rendered_view view0 in
      case attr_closure view of
        None \<Rightarrow> Inr CNone
      | Some cells \<Rightarrow>
          (case attr_code view of
             None \<Rightarrow> Inl AttributeError
           | Some c \<Rightarrow> Inr (closure_lookup (zip (co_freevars c) cells))))"

text \<open>\<open>_get_unwrapped\<close>: \<open>__wraps__\<close> is tried first, then \<open>__wrapped__\<close>.\<close>

fun get_unwrapped :: "pyobj \<Rightarrow> pyobj" where
  "get_unwrapped PyNone = PyNone"
| "get_unwrapped (PyObj w w' a) =
     (case w of
        Some f \<Rightarrow> get_unwrapped f
      | None \<Rightarrow> (case w' of Some f \<Rightarrow> get_unwrapped f | None \<Rightarrow> PyObj w w' a))"

text \<open>\<open>line.lstrip().startswith(('"', "'"))\<close>\<close>

definition starts_string_literal :: "string \<Rightarrow> bool" where
  "starts_string_literal line =
     (startswith (lstrip line) [CHR 0x22] \<or> startswith (lstrip line) [CHR 0x27])"

text \<open>
  The \<open>for ... else\<close> loop over \<open>enumerate(lines, start_offset)\<close>: the number of the
  first line that starts a string literal, \<open>None\<close> for the \<open>else\<close> branch.
\<close>

fun first_literal_line :: "int \<Rightarrow> string list \<Rightarrow> int option" where
  "first_literal_line lineno [] = None"
| "first_literal_line lineno (line # lines) =
     (if starts_string_literal line then Some lineno
      else first_literal_line (lineno + 1) lines)"

definition get_docstring :: "pyobj \<Rightarrow> error + (string option \<times> int \<times> string) option" where
  "get_docstring func0 =
     (let func = get_unwrapped func0 in
      case inspect_getsourcefile func of
        Inl e \<Rightarrow> (if e = TypeError then Inr None else Inl e)
      | Inr filename \<Rightarrow>
          (case inspect_getsourcelines func of
             Inl e \<Rightarrow> Inl e
           | Inr (lines, start_offset) \<Rightarrow>
               (case first_literal_line (max start_offset 1) lines of
                  None \<Rightarrow> Inr None
                | Some lineno \<Rightarrow>
                    (case inspect_getdoc func of
                       Some docstring \<Rightarrow> Inr (Some (filename, lineno, docstring))
                     | None \<Rightarrow> Inr None))))"

section \<open>extract.py: finding the view of a route\<close>

text \<open>
  The framework's objects are opaque here: requests, resources and interfaces are
  names. The registry answers the queries that \<open>find_view\<close> and \<open>collect\<close> make; the
  framework's own defaults are given separately.
\<close>

type_synonym request = nat
type_synonym resource = nat
type_synonym iface = string
type_synonym environ = "(string \<times> string) list"

record tdict =
  td_context :: resource
  td_view_name :: string

record route =
  route_name :: string
  route_pattern :: string
  route_factory :: "(request \<Rightarrow> resource) option"

record registry =
  routes_mapper :: "(string \<times> route) list option"
  root_factory_utility :: "(request \<Rightarrow> resource) option"
  route_request_utility :: "string \<Rightarrow> iface option"
  request_factory_utility :: "(environ \<Rightarrow> request) option"
  traverser_adapter :: "resource \<Rightarrow> (request \<Rightarrow> tdict) option"
  view_lookup :: "iface \<times> iface \<times> iface \<Rightarrow> string \<Rightarrow> pyobj option"

record pyramid =
  DefaultRootFactory :: "request \<Rightarrow> resource"
  Request :: "environ \<Rightarrow> request"
  ResourceTreeTraverser :: "resource \<Rightarrow> request \<Rightarrow> tdict"
  providedBy :: "resource \<Rightarrow> iface"

definition IRequest :: iface where
  "IRequest = ''IRequest''"

definition IViewClassifier :: iface where
  "IViewClassifier = ''IViewClassifier''"

definition find_view :: "pyramid \<Rightarrow> registry \<Rightarrow> route \<Rightarrow> pyobj" where
  "find_view fw reg route =
     (let root_factory =
            (case root_factory_utility reg of None \<Rightarrow> DefaultRootFactory fw | Some f \<Rightarrow> f);
          request_iface =
            (case route_request_utility reg (route_name route) of
               None \<Rightarrow> IRequest | Some i \<Rightarrow> i);
          root_factory = (case route_factory route of Some f \<Rightarrow> f | None \<Rightarrow> root_factory);
          request_factory =
            (case request_factory_utility reg of None \<Rightarrow> Request fw | Some f \<Rightarrow> f);
          request = request_factory [];
          root = root_factory request;
          traverser =
            (case traverser_adapter reg root of
               None \<Rightarrow> ResourceTreeTraverser fw root | Some t \<Rightarrow> t);
          td = traverser request;
          context_iface = providedBy fw (td_context td)
      in case view_lookup reg (IViewClassifier, request_iface, context_iface) (td_view_name td) of
           None \<Rightarrow> PyNone
         | Some view \<Rightarrow> view)"

section \<open>extract.py: collect\<close>

text \<open>\<open>d[k] = v\<close> on a dictionary kept in insertion order.\<close>

fun dict_set :: "pydict \<Rightarrow> string \<Rightarrow> pyvalue \<Rightarrow> pydict" where
  "dict_set [] k v = [(k, v)]"
| "dict_set ((k', v') # d) k v =
     (if k' = k then (k, v) # d else (k', v') # dict_set d k v)"

definition doc_value :: "(string option \<times> int \<times> string) option \<Rightarrow> pyvalue" where
  "doc_value doc =
     (case doc of
        None \<Rightarrow> VNone
      | Some (filename, lineno, docstring) \<Rightarrow>
          VTuple [case filename of None \<Rightarrow> VNone | Some f \<Rightarrow> VStr f, VInt lineno, VStr docstring])"

definition predicates_value :: "(string \<times> pyvalue) list \<Rightarrow> pyvalue" where
  "predicates_value predicates = VList (map (\<lambda>(n, v). VTuple [VStr n, v]) predicates)"

text \<open>
  The body of the \<open>for\<close> loop of \<open>collect\<close>, for one route. \<open>inspect.getmodule(view)\<close>
  may be \<open>None\<close>, and \<open>None.__name__\<close> raises \<open>AttributeError\<close>; so does \<open>renderer.name\<close>
  on an object without that attribute.
\<close>

definition route_entry :: "pyramid \<Rightarrow> registry \<Rightarrow> route \<Rightarrow> error + pydict" where
  "route_entry fw reg route =
     (let view = find_view fw reg route in
      case get_view_renderer view of
        Inl e \<Rightarrow> Inl e
      | Inr renderer \<Rightarrow>
          (let predicates = get_view_predicates view;
               pattern = route_pattern route;
               pattern = (if \<not> startswith pattern ''/'' then ''/'' @ pattern else pattern)
           in case inspect_getmodule view of
                None \<Rightarrow> Inl AttributeError
              | Some module_name \<Rightarrow>
                  (case get_docstring view of
                     Inl e \<Rightarrow> Inl e
                   | Inr doc \<Rightarrow>
                       (let value =
                              [(''name'', VStr (route_name route)),
                               (''pattern'', VStr pattern),
                               (''predicates'', predicates_value predicates),
                               (''module'', VStr module_name),
                               (''doc'', doc_value doc),
                               (''renderer'', VNone)]
                        in case renderer of
                             CNone \<Rightarrow> Inr value
                           | CRenderer r \<Rightarrow>
                               Inr (dict_set value ''renderer'' (VStr (renderer_name r)))
                           | COther x \<Rightarrow> Inl AttributeError))))"

fun collect_loop ::
  "pyramid \<Rightarrow> registry \<Rightarrow> (string \<times> route) list \<Rightarrow> pydict list \<Rightarrow> error + pydict list" where
  "collect_loop fw reg [] routes = Inr routes"
| "collect_loop fw reg ((name, route) # items) routes =
     (case route_entry fw reg route of
        Inl e \<Rightarrow> Inl e
      | Inr value \<Rightarrow> collect_loop fw reg items (routes @ [value]))"

text \<open>
  The sort key \<open>operator.itemgetter("pattern")\<close>. Every dictionary built by
  \<open>route_entry\<close> holds a string under \<open>pattern\<close>, so the keys compared are strings,
  ordered character by character.
\<close>

definition pattern_of :: "pydict \<Rightarrow> string" where
  "pattern_of d = (case map_of d ''pattern'' of Some (VStr s) \<Rightarrow> s | _ \<Rightarrow> [])"

record env =
  env_registry :: registry

text \<open>
  \<open>collect\<close>. The utilities looked up before the loop (root factory, request, traverser)
  are not used by it. Without a routes mapper, \<open>mapper.routes\<close> raises
  \<open>AttributeError\<close>. \<open>sorted\<close> is stable, as \<open>sort_key\<close> is.
\<close>

definition collect :: "pyramid \<Rightarrow> env \<Rightarrow> error + pydict list" where
  "collect fw e =
     (case routes_mapper (env_registry e) of
        None \<Rightarrow> Inl AttributeError
      | Some items \<Rightarrow>
          (case collect_loop fw (env_registry e) items [] of
             Inl err \<Rightarrow> Inl err
           | Inr routes \<Rightarrow> Inr (sort_key pattern_of routes)))"

section \<open>extract.py: grouping, serialising, main\<close>

text \<open>
  \<open>group_by_modules\<close>. The dictionary \<open>grouped\<close> maps a module name to the pair of its
  \<open>doc\<close> and its \<open>routes\<close>; \<open>sys.modules\<close> is a parameter.
\<close>

type_synonym grouped = "(string \<times> pyvalue \<times> pydict list) list"

fun append_route :: "grouped \<Rightarrow> string \<Rightarrow> pydict \<Rightarrow> grouped" where
  "append_route [] name route = []"
| "append_route ((k, doc, routes) # g) name route =
     (if k = name then (k, doc, routes @ [route]) # g
      else (k, doc, routes) # append_route g name route)"

fun group_by_modules_loop ::
  "(string \<Rightarrow> pyobj option) \<Rightarrow> pydict list \<Rightarrow> grouped \<Rightarrow> error + grouped" where
  "group_by_modules_loop sys_modules [] grouped = Inr grouped"
| "group_by_modules_loop sys_modules (route # routes) grouped =
     (case map_of route ''module'' of
        None \<Rightarrow> Inl KeyError
      | Some (VStr name) \<Rightarrow>
          (if name \<notin> fst ` set grouped then
             (case sys_modules name of
                None \<Rightarrow> Inl KeyError
              | Some module \<Rightarrow>
                  (case get_docstring module of
                     Inl e \<Rightarrow> Inl e
                   | Inr doc \<Rightarrow>
                       group_by_modules_loop sys_modules routes
                         (append_route (grouped @ [(name, doc_value doc, [])]) name route)))
           else group_by_modules_loop sys_modules routes (append_route grouped name route))
      | Some (VList xs) \<Rightarrow> Inl TypeError
      | Some (VDict d) \<Rightarrow> Inl TypeError
      | Some other \<Rightarrow> Inl KeyError)"

definition grouped_value :: "grouped \<Rightarrow> pyvalue" where
  "grouped_value g =
     VDict (map (\<lambda>(name, doc, routes).
                   (name, VDict [(''doc'', doc), (''routes'', VList (map VDict routes))])) g)"

definition group_by_modules :: "(string \<Rightarrow> pyobj option) \<Rightarrow> pydict list \<Rightarrow> error + pyvalue" where
  "group_by_modules sys_modules routes =
     (case group_by_modules_loop sys_modules routes [] of
        Inl e \<Rightarrow> Inl e
      | Inr g \<Rightarrow> Inr (grouped_value g))"

definition GROUP_FUNCS ::
  "(string \<times> ((string \<Rightarrow> pyobj option) \<Rightarrow> pydict list \<Rightarrow> error + pyvalue)) list" where
  "GROUP_FUNCS = [(''module'', group_by_modules)]"

text \<open>
  A JSON document, and \<open>json.dump\<close> as the document it writes: tuples become arrays, and
  an object that is none of the serialisable kinds makes it raise \<open>TypeError\<close> (\<open>None\<close>
  here).
\<close>

datatype json =
    JNull
  | JBool bool
  | JInt int
  | JStr string
  | JArr "json list"
  | JObj "(string \<times> json) list"

fun json_dump :: "pyvalue \<Rightarrow> json option"
  and json_dump_list :: "pyvalue list \<Rightarrow> json list option"
  and json_dump_items :: "(string \<times> pyvalue) list \<Rightarrow> (string \<times> json) list option" where
  "json_dump VNone = Some JNull"
| "json_dump (VBool b) = Some (JBool b)"
| "json_dump (VInt i) = Some (JInt i)"
| "json_dump (VStr s) = Some (JStr s)"
| "json_dump (VTuple xs) = map_option JArr (json_dump_list xs)"
| "json_dump (VList xs) = map_option JArr (json_dump_list xs)"
| "json_dump (VDict d) = map_option JObj (json_dump_items d)"
| "json_dump (VOpaque r) = None"
| "json_dump_list [] = Some []"
| "json_dump_list (x # xs) =
     (case json_dump x of
        None \<Rightarrow> None
      | Some j \<Rightarrow> map_option ((#) j) (json_dump_list xs))"
| "json_dump_items [] = Some []"
| "json_dump_items ((k, v) # d) =
     (case json_dump v of
        None \<Rightarrow> None
      | Some j \<Rightarrow> map_option ((#) (k, j)) (json_dump_items d))"

text \<open>What \<open>json.loads\<close> builds from a document.\<close>

primrec json_to_py :: "json \<Rightarrow> pyvalue" where
  "json_to_py JNull = VNone"
| "json_to_py (JBool b) = VBool b"
| "json_to_py (JInt i) = VInt i"
| "json_to_py (JStr s) = VStr s"
| "json_to_py (JArr xs) = VList (map json_to_py xs)"
| "json_to_py (JObj d) = VDict (map (map_prod id json_to_py) d)"

text \<open>
  \<open>main\<close>, from the parsed command line on. \<open>argparse\<close> rejects a \<open>--group\<close> value
  outside \<open>GROUP_FUNCS.keys()\<close> and exits with status 2 before anything is written.
  \<open>paster.bootstrap\<close> and \<open>sys.modules\<close> are parameters. The result is the one document
  that \<open>json.dump\<close> writes to standard output.
\<close>

record options =
  opt_config :: string
  opt_prefix :: "string option"
  opt_group :: "string option"

definition str_truthy :: "string option \<Rightarrow> bool" where
  "str_truthy s = (case s of None \<Rightarrow> False | Some t \<Rightarrow> t \<noteq> [])"

definition main ::
  "pyramid \<Rightarrow> (string \<Rightarrow> error + env) \<Rightarrow> (string \<Rightarrow> pyobj option) \<Rightarrow> options \<Rightarrow> error + json" where
  "main fw bootstrap sys_modules opts =
     (case (case opt_group opts of
              None \<Rightarrow> Inr None
            | Some g \<Rightarrow>
                (case map_of GROUP_FUNCS g of
                   None \<Rightarrow> Inl (SystemExit 2)
                 | Some f \<Rightarrow> Inr (if g \<noteq> [] then Some f else None))) of
        Inl e \<Rightarrow> Inl e
      | Inr group_func \<Rightarrow>
          (case bootstrap (opt_config opts) of
             Inl e \<Rightarrow> Inl e
           | Inr e \<Rightarrow>
               (case collect fw e of
                  Inl err \<Rightarrow> Inl err
                | Inr routes \<Rightarrow>
                    (let routes =
                           (if str_truthy (opt_prefix opts)
                            then filter (\<lambda>r. startswith (pattern_of r) (the (opt_prefix opts))) routes
                            else routes)
                     in case (case group_func of
                                None \<Rightarrow> Inr (VList (map VDict routes))
                              | Some f \<Rightarrow> f sys_modules routes) of
                          Inl err \<Rightarrow> Inl err
                        | Inr result \<Rightarrow>
                            (case json_dump result of
                               None \<Rightarrow> Inl TypeError
                             | Some document \<Rightarrow> Inr document)))))"

section \<open>extract.py run as a program\<close>

text \<open>
  The last lines of the script: \<open>sys.exit(main(sys.argv[1:]))\<close>. What the process needs
  besides the framework: \<open>paster.bootstrap\<close>, \<open>sys.modules\<close>, the way \<open>argparse\<close> reads a
  command line into \<open>config\<close>, \<open>prefix\<close> and \<open>group\<close> (the check of the group against its
  choices is made in \<open>main\<close> above), the text that \<open>json.dump\<close> writes for a document, and
  what is on standard output when \<open>main\<close> ends with an exception: nothing, or the
  beginning of a document when \<open>json.dump\<close> raises part-way.
\<close>

record script_env =
  se_pyramid :: pyramid
  se_bootstrap :: "string \<Rightarrow> error + env"
  se_sys_modules :: "string \<Rightarrow> pyobj option"
  se_parse_args :: "string list \<Rightarrow> error + options"
  se_json_text :: "json \<Rightarrow> string"
  se_failure_output :: "error \<Rightarrow> string"

text \<open>\<open>main(args)\<close>, from the argument list on.\<close>

definition main_args :: "script_env \<Rightarrow> string list \<Rightarrow> error + json" where
  "main_args s args =
     (case se_parse_args s args of
        Inl e \<Rightarrow> Inl e
      | Inr opts \<Rightarrow> main (se_pyramid s) (se_bootstrap s) (se_sys_modules s) opts)"

text \<open>The standard output of the process started with the arguments \<open>argv\<close>.\<close>

definition script_stdout :: "script_env \<Rightarrow> string list \<Rightarrow> string" where
  "script_stdout s argv =
     (case main_args s argv of
        Inl e \<Rightarrow> se_failure_output s e
      | Inr document \<Rightarrow> se_json_text s document)"

section \<open>extension.py: running the helper\<close>

text \<open>
  What \<open>get_routes\<close> takes from its surroundings: the interpreter and script paths,
  \<open>os.path.expanduser\<close>, the standard output of the child process for a given argument
  list (none when \<open>Popen\<close> raises \<open>OSError\<close>), decoding, and the parser behind
  \<open>json.loads\<close>, which accepts a text only when it is one JSON document.
\<close>

record world =
  sys_executable :: string
  script_path :: string
  expanduser :: "string \<Rightarrow> string"
  popen_communicate :: "string list \<Rightarrow> string option"
  decode_utf8 :: "string \<Rightarrow> string option"
  parse_json :: "string \<Rightarrow> json option"

definition get_routes_args :: "world \<Rightarrow> string \<Rightarrow> string option \<Rightarrow> string option \<Rightarrow> string list" where
  "get_routes_args w config prefix group_by =
     (let config = expanduser w config;
          args = [sys_executable w, script_path w, config];
          args = (if str_truthy group_by then args @ [''--group='' @ the group_by] else args);
          args = (if str_truthy prefix then args @ [''--prefix='' @ the prefix] else args)
      in args)"

definition get_routes :: "world \<Rightarrow> string \<Rightarrow> string option \<Rightarrow> string option \<Rightarrow> error + pyvalue" where
  "get_routes w config prefix group_by =
     (case popen_communicate w (get_routes_args w config prefix group_by) of
        None \<Rightarrow> Inl OSError
      | Some stdout \<Rightarrow>
          (case decode_utf8 w stdout of
             None \<Rightarrow> Inl ValueError
           | Some text \<Rightarrow>
               (case parse_json w text of
                  None \<Rightarrow> Inl ValueError
                | Some document \<Rightarrow> Inr (json_to_py document))))"

text \<open>The document that \<open>json.loads(stdout.decode("utf-8"))\<close> reads, if it reads one.\<close>

definition loads_document :: "world \<Rightarrow> string \<Rightarrow> json option" where
  "loads_document w stdout =
     (case decode_utf8 w stdout of None \<Rightarrow> None | Some text \<Rightarrow> parse_json w text)"

section \<open>extension.py: rendering\<close>

text \<open>
  The build environment of the documentation tool, as far as the directives use it:
  the current document, the serial number counter behind \<open>new_serialno("route")\<close>, the
  \<open>pyramid_routes\<close> attribute (absent until \<open>_prepare_env\<close> creates it) and the
  \<open>wegweiser\<close> configuration value.
\<close>

record build_env =
  docname :: string
  serialno :: nat
  pyramid_routes :: "(string \<Rightarrow> pyvalue set) option"
  wegweiser :: "string \<Rightarrow> string option"

text \<open>
  Document nodes. A section carries its identifier (\<open>route-<n>\<close> or \<open>module-<name>\<close>);
  \<open>DocstringContent filename start docstring\<close> stands for the nodes that
  \<open>_render_docstring\<close> parses out of the docstring into its parent.
\<close>

datatype node_id = RouteId nat | ModuleId string

datatype node =
    Section node_id "node list"
  | Title pyvalue
  | Paragraph "node list"
  | Strong string
  | Inline pyvalue
  | Literal pyvalue
  | Text string
  | DocstringContent pyvalue pyvalue pyvalue

definition prepare_env :: "build_env \<Rightarrow> build_env" where
  "prepare_env env =
     (case pyramid_routes env of
        None \<Rightarrow> env\<lparr>pyramid_routes := Some (\<lambda>d. {})\<rparr>
      | Some r \<Rightarrow> env)"

text \<open>\<open>o[key]\<close> with a string key, \<open>o[0]\<close>, and iteration over an object.\<close>

fun getitem :: "pyvalue \<Rightarrow> string \<Rightarrow> error + pyvalue" where
  "getitem (VDict d) k = (case map_of d k of None \<Rightarrow> Inl KeyError | Some v \<Rightarrow> Inr v)"
| "getitem other k = Inl TypeError"

fun getitem_0 :: "pyvalue \<Rightarrow> error + pyvalue" where
  "getitem_0 (VList xs) = (case xs of [] \<Rightarrow> Inl IndexError | x # rest \<Rightarrow> Inr x)"
| "getitem_0 (VTuple xs) = (case xs of [] \<Rightarrow> Inl IndexError | x # rest \<Rightarrow> Inr x)"
| "getitem_0 (VStr s) = (case s of [] \<Rightarrow> Inl IndexError | c # rest \<Rightarrow> Inr (VStr [c]))"
| "getitem_0 (VDict d) = Inl KeyError"
| "getitem_0 other = Inl TypeError"

fun py_iter :: "pyvalue \<Rightarrow> error + pyvalue list" where
  "py_iter (VList xs) = Inr xs"
| "py_iter (VTuple xs) = Inr xs"
| "py_iter (VDict d) = Inr (map (\<lambda>(k, v). VStr k) d)"
| "py_iter (VStr s) = Inr (map (\<lambda>c. VStr [c]) s)"
| "py_iter other = Inl TypeError"

fun hashable :: "pyvalue \<Rightarrow> bool" where
  "hashable (VList xs) = False"
| "hashable (VDict d) = False"
| "hashable (VTuple xs) = list_all hashable xs"
| "hashable other = True"

text \<open>\<open>env.pyramid_routes[env.docname].add(doc[0])\<close>\<close>

definition add_source :: "build_env \<Rightarrow> pyvalue \<Rightarrow> error + build_env" where
  "add_source env doc =
     (case pyramid_routes env of
        None \<Rightarrow> Inl AttributeError
      | Some r \<Rightarrow>
          (case getitem_0 doc of
             Inl e \<Rightarrow> Inl e
           | Inr filename \<Rightarrow>
               (if hashable filename
                then Inr (env\<lparr>pyramid_routes :=
                               Some (r(docname env := insert filename (r (docname env))))\<rparr>)
                else Inl TypeError)))"

definition endswith :: "string \<Rightarrow> string \<Rightarrow> bool" where
  "endswith s p = startswith (rev s) (rev p)"

text \<open>\<open>_strip_prefix\<close>; a pattern that is not a string has no \<open>startswith\<close>.\<close>

definition strip_prefix :: "(string \<Rightarrow> string option) \<Rightarrow> pyvalue \<Rightarrow> error + pyvalue" where
  "strip_prefix options pattern =
     (let prefix = options ''prefix'' in
      if str_truthy prefix then
        (case pattern of
           VStr p \<Rightarrow>
             (if startswith p (the prefix)
              then Inr (VStr (drop (length (the prefix)
                                     - (if endswith (the prefix) ''/'' then 1 else 0)) p))
              else Inr pattern)
         | other \<Rightarrow> Inl AttributeError)
      else Inr pattern)"

text \<open>\<open>_get_request_methods\<close>: each item is unpacked into \<open>(name, value)\<close>.\<close>

fun request_methods_loop :: "pyvalue list \<Rightarrow> error + pyvalue" where
  "request_methods_loop [] = Inr (VList [])"
| "request_methods_loop (item # items) =
     (case py_iter item of
        Inl e \<Rightarrow> Inl e
      | Inr [name, value] \<Rightarrow>
          (if name = VStr ''RequestMethodPredicate'' then Inr value
           else request_methods_loop items)
      | Inr other \<Rightarrow> Inl ValueError)"

definition get_request_methods :: "pyvalue \<Rightarrow> error + pyvalue" where
  "get_request_methods route =
     (case getitem route ''predicates'' of
        Inl e \<Rightarrow> Inl e
      | Inr predicates \<Rightarrow>
          (case py_iter predicates of
             Inl e \<Rightarrow> Inl e
           | Inr items \<Rightarrow> request_methods_loop items))"

fun method_nodes :: "nat \<Rightarrow> pyvalue list \<Rightarrow> node list" where
  "method_nodes i [] = []"
| "method_nodes i (method # methods) =
     (if i \<ge> 1 then [Inline (VStr '', '')] else []) @ [Literal method]
       @ method_nodes (i + 1) methods"

text \<open>
  \<open>_render_request_methods\<close> returns a paragraph or the empty list, \<open>_render_response\<close> a
  paragraph or \<open>None\<close>; \<open>route_node += x\<close> appends a node, extends by a list and ignores
  \<open>None\<close>, so both are lists of nodes here.
\<close>

definition render_request_methods :: "pyvalue \<Rightarrow> error + node list" where
  "render_request_methods route =
     (case get_request_methods route of
        Inl e \<Rightarrow> Inl e
      | Inr request_methods \<Rightarrow>
          (if truthy request_methods then
             (case py_iter request_methods of
                Inl e \<Rightarrow> Inl e
              | Inr methods \<Rightarrow>
                  Inr [Paragraph ([Strong ''Request methods: ''] @ method_nodes 0 methods
                                  @ [Text [CHR 0x0A]])])
           else Inr []))"

definition render_response :: "pyvalue \<Rightarrow> error + node list" where
  "render_response route =
     (case getitem route ''renderer'' of
        Inl e \<Rightarrow> Inl e
      | Inr r \<Rightarrow>
          (if truthy r then Inr [Paragraph [Strong ''Response: '', Inline r]] else Inr []))"

text \<open>
  \<open>self._render_docstring(node, *doc)\<close>: \<open>doc\<close> is unpacked into the three remaining
  parameters. \<open>prepare_docstring\<close> needs a string (another object has no
  \<open>expandtabs\<close>), \<open>enumerate\<close> an integer to start from; the parsed content is then added
  to the node.
\<close>

definition render_docstring :: "pyvalue \<Rightarrow> error + node list" where
  "render_docstring doc =
     (case py_iter doc of
        Inl e \<Rightarrow> Inl e
      | Inr [filename, start_offset, docstring] \<Rightarrow>
          (case docstring of
             VStr s \<Rightarrow>
               (case start_offset of
                  VInt n \<Rightarrow> Inr [DocstringContent filename start_offset docstring]
                | VBool b \<Rightarrow> Inr [DocstringContent filename start_offset docstring]
                | other \<Rightarrow> Inl TypeError)
           | other \<Rightarrow> Inl AttributeError)
      | Inr other \<Rightarrow> Inl TypeError)"

text \<open>
  \<open>_render_route\<close>. The result is the section node and the build environment after the
  call.
\<close>

definition render_route ::
  "(string \<Rightarrow> string option) \<Rightarrow> build_env \<Rightarrow> pyvalue \<Rightarrow> error + (node \<times> build_env)" where
  "render_route options env route =
     (case getitem route ''doc'' of
        Inl e \<Rightarrow> Inl e
      | Inr doc \<Rightarrow>
          (case (if truthy doc then add_source env doc else Inr env) of
             Inl e \<Rightarrow> Inl e
           | Inr env1 \<Rightarrow>
               (let route_id = RouteId (serialno env1);
                    env2 = env1\<lparr>serialno := serialno env1 + 1\<rparr>
                in case getitem route ''pattern'' of
                     Inl e \<Rightarrow> Inl e
                   | Inr pattern \<Rightarrow>
                       (case strip_prefix options pattern of
                          Inl e \<Rightarrow> Inl e
                        | Inr title \<Rightarrow>
                            (case render_request_methods route of
                               Inl e \<Rightarrow> Inl e
                             | Inr methods \<Rightarrow>
                                 (case render_response route of
                                    Inl e \<Rightarrow> Inl e
                                  | Inr response \<Rightarrow>
                                      (case (if doc \<noteq> VNone then render_docstring doc
                                             else Inr []) of
                                         Inl e \<Rightarrow> Inl e
                                       | Inr content \<Rightarrow>
                                           Inr (Section route_id
                                                  ([Title title] @ methods @ response @ content),
                                                env2))))))))"

text \<open>\<open>_default_group_renderer\<close>: the list comprehension over \<open>routes\<close>.\<close>

fun render_routes ::
  "(string \<Rightarrow> string option) \<Rightarrow> build_env \<Rightarrow> pyvalue list \<Rightarrow> error + (node list \<times> build_env)" where
  "render_routes options env [] = Inr ([], env)"
| "render_routes options env (route # routes) =
     (case render_route options env route of
        Inl e \<Rightarrow> Inl e
      | Inr (n, env1) \<Rightarrow>
          (case render_routes options env1 routes of
             Inl e \<Rightarrow> Inl e
           | Inr (ns, env2) \<Rightarrow> Inr (n # ns, env2)))"

definition default_group_renderer ::
  "(string \<Rightarrow> string option) \<Rightarrow> build_env \<Rightarrow> pyvalue \<Rightarrow> error + (node list \<times> build_env)" where
  "default_group_renderer options env routes =
     (case py_iter routes of
        Inl e \<Rightarrow> Inl e
      | Inr rs \<Rightarrow> render_routes options env rs)"

text \<open>
  \<open>_module_group_renderer\<close>: one section per item of \<open>modules.items()\<close>; an object that
  is no dictionary has no \<open>items\<close>.
\<close>

definition render_module ::
  "(string \<Rightarrow> string option) \<Rightarrow> build_env \<Rightarrow> string \<Rightarrow> pyvalue \<Rightarrow> error + (node \<times> build_env)" where
  "render_module options env name module =
     (case getitem module ''doc'' of
        Inl e \<Rightarrow> Inl e
      | Inr doc \<Rightarrow>
          (case (if truthy doc then
                   (case render_docstring doc of
                      Inl e \<Rightarrow> Inl e
                    | Inr content \<Rightarrow>
                        (case add_source env doc of
                           Inl e \<Rightarrow> Inl e
                         | Inr env1 \<Rightarrow> Inr (content, env1)))
                 else Inr ([], env)) of
             Inl e \<Rightarrow> Inl e
           | Inr (content, env1) \<Rightarrow>
               (case getitem module ''routes'' of
                  Inl e \<Rightarrow> Inl e
                | Inr routes \<Rightarrow>
                    (case py_iter routes of
                       Inl e \<Rightarrow> Inl e
                     | Inr rs \<Rightarrow>
                         (case render_routes options env1 rs of
                            Inl e \<Rightarrow> Inl e
                          | Inr (ns, env2) \<Rightarrow>
                              Inr (Section (ModuleId name)
                                     ([Title (VStr name)] @ content @ ns), env2))))))"

fun render_modules ::
  "(string \<Rightarrow> string option) \<Rightarrow> build_env \<Rightarrow> (string \<times> pyvalue) list
     \<Rightarrow> error + (node list \<times> build_env)" where
  "render_modules options env [] = Inr ([], env)"
| "render_modules options env ((name, module) # items) =
     (case render_module options env name module of
        Inl e \<Rightarrow> Inl e
      | Inr (n, env1) \<Rightarrow>
          (case render_modules options env1 items of
             Inl e \<Rightarrow> Inl e
           | Inr (ns, env2) \<Rightarrow> Inr (n # ns, env2)))"

definition module_group_renderer ::
  "(string \<Rightarrow> string option) \<Rightarrow> build_env \<Rightarrow> pyvalue \<Rightarrow> error + (node list \<times> build_env)" where
  "module_group_renderer options env modules =
     (case modules of
        VDict items \<Rightarrow> render_modules options env items
      | other \<Rightarrow> Inl AttributeError)"

text \<open>The registry filled by the \<open>@group_renderer(name)\<close> decorators.\<close>

definition group_renderer ::
  "(string \<times> ((string \<Rightarrow> string option) \<Rightarrow> build_env \<Rightarrow> pyvalue
      \<Rightarrow> error + (node list \<times> build_env))) list" where
  "group_renderer = [([], default_group_renderer), (''module'', module_group_renderer)]"

section \<open>extension.py: the pyramidroutes directive\<close>

text \<open>\<open>self.error("Invalid group: {0!r}".format(group_by))\<close>\<close>

definition invalid_group :: "string \<Rightarrow> error" where
  "invalid_group group_by = DirectiveError ''Invalid group: {0!r}'' group_by"

text \<open>\<open>_PyramidDirective._get_routes\<close>\<close>

definition directive_get_routes ::
  "world \<Rightarrow> build_env \<Rightarrow> string option \<Rightarrow> string option \<Rightarrow> error + pyvalue" where
  "directive_get_routes w env prefix group_by =
     (case wegweiser env ''app_config'' of
        None \<Rightarrow> Inl KeyError
      | Some config \<Rightarrow> get_routes w config prefix group_by)"

text \<open>
  \<open>PyramidRoutesDirective.run\<close>. The routes are fetched before the group renderer is
  looked up.
\<close>

definition run ::
  "world \<Rightarrow> build_env \<Rightarrow> (string \<Rightarrow> string option) \<Rightarrow> error + (node list \<times> build_env)" where
  "run w env0 options =
     (let env = prepare_env env0;
          group_by = (case options ''groupby'' of None \<Rightarrow> [] | Some g \<Rightarrow> g);
          prefix = options ''prefix''
      in case directive_get_routes w env prefix (Some group_by) of
           Inl e \<Rightarrow> Inl e
         | Inr routes \<Rightarrow>
             (case map_of group_renderer group_by of
                None \<Rightarrow> Inl (invalid_group group_by)
              | Some renderer \<Rightarrow> renderer options env routes))"

section \<open>extension.py: the options of the pyramidroutes directive\<close>

text \<open>
  \<open>option_spec\<close> gives, for each option name, the function that converts the text written
  in the document; an option written without a value has the argument \<open>None\<close>.
  \<open>directives.unchanged\<close> returns the text, or the empty string for \<open>None\<close>.
  \<open>directives.choice\<close> lower-cases and strips the text and raises \<open>ValueError\<close> unless the
  result is one of the values; \<open>normalise\<close> stands for \<open>argument.lower().strip()\<close>.
\<close>

definition unchanged :: "string option \<Rightarrow> error + string" where
  "unchanged argument = (case argument of None \<Rightarrow> Inr [] | Some a \<Rightarrow> Inr a)"

definition choice :: "(string \<Rightarrow> string) \<Rightarrow> string list \<Rightarrow> string option \<Rightarrow> error + string" where
  "choice normalise values argument =
     (case argument of
        None \<Rightarrow> Inl ValueError
      | Some a \<Rightarrow>
          (let value = normalise a in
           if value \<in> set values then Inr value else Inl ValueError))"

definition option_spec ::
  "(string \<Rightarrow> string) \<Rightarrow> (string \<times> (string option \<Rightarrow> error + string)) list" where
  "option_spec normalise =
     [(''prefix'', unchanged), (''groupby'', choice normalise [''module''])]"

text \<open>
  The documentation tool converts the options of a directive one after the other, before
  it calls \<open>run\<close>: a name that \<open>option_spec\<close> does not know, a name given twice, and a
  value that its conversion function rejects each end the directive with an error in
  the document, named \<open>OptionError\<close> here with the name of the option.
\<close>

fun convert_options ::
  "(string \<times> (string option \<Rightarrow> error + string)) list \<Rightarrow> (string \<times> string option) list
     \<Rightarrow> (string \<Rightarrow> string option) \<Rightarrow> error + (string \<Rightarrow> string option)" where
  "convert_options spec [] options = Inr options"
| "convert_options spec ((name, argument) # rest) options =
     (case map_of spec name of
        None \<Rightarrow> Inl (OptionError name)
      | Some convertor \<Rightarrow>
          (if options name \<noteq> None then Inl (OptionError name)
           else (case convertor argument of
                   Inl e \<Rightarrow> Inl (OptionError name)
                 | Inr v \<Rightarrow> convert_options spec rest (options(name \<mapsto> v)))))"

text \<open>
  One use of the \<open>pyramidroutes\<close> directive in a document, with its options as written:
  the options are converted, then \<open>run\<close> is called with them.
\<close>

definition pyramidroutes ::
  "(string \<Rightarrow> string) \<Rightarrow> world \<Rightarrow> build_env \<Rightarrow> (string \<times> string option) list
     \<Rightarrow> error + (node list \<times> build_env)" where
  "pyramidroutes normalise w env written =
     (case convert_options (option_spec normalise) written Map.empty of
        Inl e \<Rightarrow> Inl e
      | Inr options \<Rightarrow> run w env options)"

section \<open>Reading the rendered nodes\<close>

text \<open>The docstring content found anywhere below a node.\<close>

fun docstring_nodes :: "node \<Rightarrow> node list" where
  "docstring_nodes (Section i children) = concat (map docstring_nodes children)"
| "docstring_nodes (Paragraph children) = concat (map docstring_nodes children)"
| "docstring_nodes (DocstringContent f n d) = [DocstringContent f n d]"
| "docstring_nodes other = []"

section \<open>An example application\<close>

text \<open>
  The registry of a small wiki application, after \<open>docs/example_app/example/views.py\<close>:
  plain view functions, and a view as the framework derives it, with a predicate wrapper
  around the \<open>rendered_view\<close> wrapper around the function.
\<close>

definition example_pyramid :: pyramid where
  "example_pyramid =
     \<lparr>DefaultRootFactory = (\<lambda>request. 0),
      Request = (\<lambda>environ. 0),
      ResourceTreeTraverser = (\<lambda>root request. \<lparr>td_context = root, td_view_name = []\<rparr>),
      providedBy = (\<lambda>resource. ''Interface'')\<rparr>"

definition example_registry :: "(string \<times> route) list \<Rightarrow> (string \<Rightarrow> pyobj option) \<Rightarrow> registry" where
  "example_registry items views =
     \<lparr>routes_mapper = Some items,
      root_factory_utility = None,
      route_request_utility = (\<lambda>name. Some name),
      request_factory_utility = None,
      traverser_adapter = (\<lambda>root. None),
      view_lookup = (\<lambda>(classifier, request_iface, context_iface) name.
                       if classifier = IViewClassifier then views request_iface else None)\<rparr>"

definition function_attrs :: "string \<Rightarrow> error + (string list \<times> int) \<Rightarrow> string option \<Rightarrow> obj_attrs" where
  "function_attrs name source doc =
     \<lparr>code_attr = Some \<lparr>co_name = name, co_freevars = []\<rparr>,
      closure_attr = None,
      predicates_attr = None,
      getsourcefile = Inr (Some ''example/views.py''),
      getsourcelines = source,
      getdoc = doc,
      getmodule = Some ''example.views''\<rparr>"

definition view_wiki :: pyobj where
  "view_wiki =
     PyObj None None
       (function_attrs ''view_wiki''
          (Inr ([''def view_wiki(request):'',
                 ''    '' @ [CHR 0x22] @ ''Redirect to the FrontPage wiki page.'' @ [CHR 0x22]], 5))
          (Some ''Redirect to the FrontPage wiki page.''))"

definition edit_page :: pyobj where
  "edit_page =
     PyObj None None
       (function_attrs ''edit_page''
          (Inr ([''def edit_page(request):'',
                 ''    '' @ [CHR 0x22] @ ''Edit an existing wiki page.'' @ [CHR 0x22]], 19))
          (Some ''Edit an existing wiki page.''))"

definition edit_page_rendered :: pyobj where
  "edit_page_rendered =
     PyObj (Some edit_page) None
       ((function_attrs ''rendered_view'' (Inr ([''def rendered_view(context, request):''], 0))
           (Some ''Edit an existing wiki page.''))
        \<lparr>code_attr := Some \<lparr>co_name = ''rendered_view'', co_freevars = [''view'', ''view_renderer'']\<rparr>,
         closure_attr := Some [COther ''edit_page'', CRenderer (Renderer ''templates/edit.pt'')]\<rparr>)"

definition edit_page_view :: pyobj where
  "edit_page_view =
     PyObj (Some edit_page_rendered) None
       ((function_attrs ''predicate_wrapper''
           (Inr ([''def predicate_wrapper(context, request):''], 0))
           (Some ''Edit an existing wiki page.''))
        \<lparr>predicates_attr :=
           Some [Predicate ''RequestMethodPredicate'' (Some (VTuple [VStr ''GET'', VStr ''POST''])),
                 Predicate ''CustomPredicate'' None]\<rparr>)"

text \<open>A view whose docstring is a raw string literal.\<close>

definition raw_doc_view :: pyobj where
  "raw_doc_view =
     PyObj None None
       (function_attrs ''raw_doc''
          (Inr ([''def raw_doc(request):'',
                 ''    r'' @ [CHR 0x22] @ ''A raw docstring.'' @ [CHR 0x22]], 23))
          (Some ''A raw docstring.''))"

text \<open>
  A view function without a docstring, in a module that was imported from its compiled
  file alone: \<open>inspect.getsourcefile\<close> names the source file, \<open>inspect.getsourcelines\<close>
  raises \<open>OSError\<close>.
\<close>

definition sourceless_view :: pyobj where
  "sourceless_view = PyObj None None (function_attrs ''view_wiki'' (Inl OSError) None)"

text \<open>
  A view that is an instance of a class with \<open>__call__\<close> and a docstring:
  \<open>inspect.getdoc\<close> finds the docstring of the class, \<open>inspect.getsourcefile\<close> raises
  \<open>TypeError\<close>.
\<close>

definition instance_view :: pyobj where
  "instance_view =
     PyObj None None
       \<lparr>code_attr = None,
        closure_attr = None,
        predicates_attr = None,
        getsourcefile = Inl TypeError,
        getsourcelines = Inl TypeError,
        getdoc = Some ''Serve the wiki page.'',
        getmodule = Some ''example.views''\<rparr>"

text \<open>A view registered with a \<open>path_info\<close> predicate, whose value is a compiled pattern.\<close>

definition path_info_view :: pyobj where
  "path_info_view =
     PyObj (Some view_wiki) None
       ((function_attrs ''predicate_wrapper''
           (Inr ([''def predicate_wrapper(context, request):''], 0))
           (Some ''Redirect to the FrontPage wiki page.''))
        \<lparr>predicates_attr := Some [Predicate ''PathInfoPredicate'' (Some (VOpaque ''re.compile''))]\<rparr>)"

definition wiki_route :: route where
  "wiki_route = \<lparr>route_name = ''view_wiki'', route_pattern = ''/'', route_factory = None\<rparr>"

definition edit_route :: route where
  "edit_route =
     \<lparr>route_name = ''edit_page'', route_pattern = ''{pagename}/edit_page'', route_factory = None\<rparr>"

definition example_views :: "string \<Rightarrow> pyobj option" where
  "example_views = [''view_wiki'' \<mapsto> view_wiki, ''edit_page'' \<mapsto> edit_page_view]"

definition example_env :: env where
  "example_env =
     \<lparr>env_registry =
        example_registry [(''edit_page'', edit_route), (''view_wiki'', wiki_route)] example_views\<rparr>"

definition wiki_entry :: pydict where
  "wiki_entry =
     [(''name'', VStr ''view_wiki''),
      (''pattern'', VStr ''/''),
      (''predicates'', VList []),
      (''module'', VStr ''example.views''),
      (''doc'', VTuple [VStr ''example/views.py'', VInt 6,
                        VStr ''Redirect to the FrontPage wiki page.'']),
      (''renderer'', VNone)]"

definition edit_entry :: pydict where
  "edit_entry =
     [(''name'', VStr ''edit_page''),
      (''pattern'', VStr ''/{pagename}/edit_page''),
      (''predicates'',
         VList [VTuple [VStr ''RequestMethodPredicate'', VTuple [VStr ''GET'', VStr ''POST'']]]),
      (''module'', VStr ''example.views''),
      (''doc'', VTuple [VStr ''example/views.py'', VInt 20, VStr ''Edit an existing wiki page.'']),
      (''renderer'', VStr ''templates/edit.pt'')]"

text \<open>Entries that \<open>collect\<close> builds for the other views above, and one as a document.\<close>

definition undocumented_json :: json where
  "undocumented_json =
     JObj [(''name'', JStr ''view_wiki''),
           (''pattern'', JStr ''/''),
           (''predicates'', JArr []),
           (''module'', JStr ''example.views''),
           (''doc'', JNull),
           (''renderer'', JNull)]"

definition path_info_entry :: pydict where
  "path_info_entry =
     [(''name'', VStr ''view_wiki''),
      (''pattern'', VStr ''/''),
      (''predicates'', VList [VTuple [VStr ''PathInfoPredicate'', VOpaque ''re.compile'']]),
      (''module'', VStr ''example.views''),
      (''doc'', VTuple [VStr ''example/views.py'', VInt 6,
                        VStr ''Redirect to the FrontPage wiki page.'']),
      (''renderer'', VNone)]"

definition undocumented_entry :: pydict where
  "undocumented_entry =
     [(''name'', VStr ''view_wiki''),
      (''pattern'', VStr ''/''),
      (''predicates'', VList []),
      (''module'', VStr ''example.views''),
      (''doc'', VNone),
      (''renderer'', VNone)]"

text \<open>The document written for the routes under the prefix \<open>/{\<close>.\<close>

definition edit_document :: json where
  "edit_document =
     JArr [JObj [(''name'', JStr ''edit_page''),
                 (''pattern'', JStr ''/{pagename}/edit_page''),
                 (''predicates'',
                    JArr [JArr [JStr ''RequestMethodPredicate'', JArr [JStr ''GET'', JStr ''POST'']]]),
                 (''module'', JStr ''example.views''),
                 (''doc'', JArr [JStr ''example/views.py'', JInt 20,
                                 JStr ''Edit an existing wiki page.'']),
                 (''renderer'', JStr ''templates/edit.pt'')]]"

text \<open>Registries with a single route, for a given view or none.\<close>

definition single_route_env :: "pyobj option \<Rightarrow> env" where
  "single_route_env view =
     \<lparr>env_registry =
        example_registry [(''view_wiki'', wiki_route)] (\<lambda>name. view)\<rparr>"

text \<open>
  The helper of this repository as the child process: it boots the example application
  whatever the configuration file is. Its command line is read option by option, and its
  output and the parser of the parent agree on the one document used below.
\<close>

fun example_parse_args :: "string list \<Rightarrow> options \<Rightarrow> options" where
  "example_parse_args [] opts = opts"
| "example_parse_args (a # args) opts =
     (if startswith a ''--group='' then example_parse_args args (opts\<lparr>opt_group := Some (drop 8 a)\<rparr>)
      else if startswith a ''--prefix='' then
        example_parse_args args (opts\<lparr>opt_prefix := Some (drop 9 a)\<rparr>)
      else example_parse_args args (opts\<lparr>opt_config := a\<rparr>))"

definition example_script :: script_env where
  "example_script =
     \<lparr>se_pyramid = example_pyramid,
      se_bootstrap = (\<lambda>config. Inr example_env),
      se_sys_modules = Map.empty,
      se_parse_args =
        (\<lambda>args. Inr (example_parse_args args
                        \<lparr>opt_config = [], opt_prefix = None, opt_group = None\<rparr>)),
      se_json_text = (\<lambda>document. if document = edit_document then ''[edit_page]'' else ''[...]''),
      se_failure_output = (\<lambda>e. [])\<rparr>"

definition example_world :: world where
  "example_world =
     \<lparr>sys_executable = ''/usr/bin/python'',
      script_path = ''wegweiser/extract.py'',
      expanduser = (\<lambda>path. case path of
                              c # rest \<Rightarrow> if c = CHR ''~'' then ''/home/andy'' @ rest else path
                            | [] \<Rightarrow> path),
      popen_communicate = (\<lambda>args. Some (script_stdout example_script (drop 2 args))),
      decode_utf8 = Some,
      parse_json = (\<lambda>text. if text = ''[edit_page]'' then Some edit_document else None)\<rparr>"

definition example_build_env :: build_env where
  "example_build_env =
     \<lparr>docname = ''index'',
      serialno = 0,
      pyramid_routes = None,
      wegweiser = [''app_config'' \<mapsto> ''~/development.ini'']\<rparr>"
section \<open>Facts about the loops of extract.py\<close>

lemma startswith_Nil: "startswith s []"
  by (simp add: startswith_def)

lemma startswith_slash:
  "startswith (if startswith p ''/'' then p else ''/'' @ p) ''/''"
  by (simp add: startswith_def)

lemma predicates_loop_eq:
  "predicates_loop ps acc =
     acc @ map (\<lambda>p. (class_name p, the (val p))) (filter (\<lambda>p. val p \<noteq> None) ps)"
  by (induction ps arbitrary: acc) (auto split: option.splits)

lemma find_view_example:
  "find_view example_pyramid (example_registry items views) route =
     (case views (route_name route) of None \<Rightarrow> PyNone | Some v \<Rightarrow> v)"
  by (simp add: find_view_def example_pyramid_def example_registry_def IViewClassifier_def)

lemma collect_loop_entries:
  "collect_loop fw reg items acc = Inr rs \<Longrightarrow>
     \<exists>es. rs = acc @ es \<and> list_all2 (\<lambda>item e. route_entry fw reg (snd item) = Inr e) items es"
proof (induction items arbitrary: acc)
  case Nil
  then show ?case by simp
next
  case (Cons item items)
  obtain name route where item: "item = (name, route)" by (cases item)
  from Cons.prems item obtain v where
    v: "route_entry fw reg route = Inr v" and
    rest: "collect_loop fw reg items (acc @ [v]) = Inr rs"
    by (auto split: sum.splits)
  from Cons.IH [OF rest] obtain es where
    "rs = (acc @ [v]) @ es" and
    "list_all2 (\<lambda>item e. route_entry fw reg (snd item) = Inr e) items es"
    by blast
  then show ?case using v item by (intro exI [of _ "v # es"]) simp
qed

text \<open>What the loop body of \<open>collect\<close> builds when it raises nothing.\<close>

lemma route_entry_shape:
  assumes "route_entry fw reg route = Inr e"
  shows "\<exists>renderer m doc.
           get_view_renderer (find_view fw reg route) = Inr renderer \<and>
           (\<forall>x. renderer \<noteq> COther x) \<and>
           inspect_getmodule (find_view fw reg route) = Some m \<and>
           get_docstring (find_view fw reg route) = Inr doc \<and>
           e = [(''name'', VStr (route_name route)),
                (''pattern'', VStr (if startswith (route_pattern route) ''/''
                                    then route_pattern route else ''/'' @ route_pattern route)),
                (''predicates'', predicates_value (get_view_predicates (find_view fw reg route))),
                (''module'', VStr m),
                (''doc'', doc_value doc),
                (''renderer'', case renderer of CRenderer r \<Rightarrow> VStr (renderer_name r) | _ \<Rightarrow> VNone)]"
  using assms
  by (auto simp: route_entry_def Let_def split: sum.splits option.splits if_splits cell_contents.splits)

lemma route_entry_pattern:
  assumes "route_entry fw reg route = Inr e"
  shows "map_of e ''pattern'' =
           Some (VStr (if startswith (route_pattern route) ''/''
                       then route_pattern route else ''/'' @ route_pattern route))"
    and "pattern_of e = (if startswith (route_pattern route) ''/''
                         then route_pattern route else ''/'' @ route_pattern route)"
  using route_entry_shape [OF assms] by (auto simp: pattern_of_def)

lemma collect_entries:
  assumes "collect fw env = Inr routes"
  shows "\<exists>items es. routes_mapper (env_registry env) = Some items \<and>
           list_all2 (\<lambda>item e. route_entry fw (env_registry env) (snd item) = Inr e) items es \<and>
           routes = sort_key pattern_of es"
proof -
  from assms obtain items rs where
    items: "routes_mapper (env_registry env) = Some items" and
    loop: "collect_loop fw (env_registry env) items [] = Inr rs" and
    routes: "routes = sort_key pattern_of rs"
    by (auto simp: collect_def split: option.splits sum.splits)
  from collect_loop_entries [OF loop] items routes show ?thesis by auto
qed

lemma collect_entry_has_route:
  assumes "collect fw env = Inr routes" and "e \<in> set routes"
  shows "\<exists>items name route. routes_mapper (env_registry env) = Some items \<and>
           (name, route) \<in> set items \<and> route_entry fw (env_registry env) route = Inr e"
proof -
  from collect_entries [OF assms(1)] obtain items es where
    items: "routes_mapper (env_registry env) = Some items" and
    all2: "list_all2 (\<lambda>item e. route_entry fw (env_registry env) (snd item) = Inr e) items es" and
    routes: "routes = sort_key pattern_of es"
    by blast
  from assms(2) routes have "e \<in> set es" by simp
  then obtain i where i: "i < length es" "e = es ! i"
    by (auto simp: in_set_conv_nth)
  with all2 have "items ! i \<in> set items"
    and "route_entry fw (env_registry env) (snd (items ! i)) = Inr e"
    by (simp_all add: list_all2_conv_all_nth)
  with items show ?thesis by (cases "items ! i") auto
qed

lemma collect_route_has_entry:
  assumes "collect fw env = Inr routes"
    and "routes_mapper (env_registry env) = Some items"
    and "(name, route) \<in> set items"
  shows "\<exists>e \<in> set routes. route_entry fw (env_registry env) route = Inr e"
proof -
  from collect_entries [OF assms(1)] assms(2) obtain es where
    all2: "list_all2 (\<lambda>item e. route_entry fw (env_registry env) (snd item) = Inr e) items es" and
    routes: "routes = sort_key pattern_of es"
    by auto
  from assms(3) obtain i where i: "i < length items" "items ! i = (name, route)"
    by (auto simp: in_set_conv_nth)
  with all2 have "route_entry fw (env_registry env) route = Inr (es ! i)" and "i < length es"
    by (auto simp: list_all2_conv_all_nth)
  then show ?thesis using routes by auto
qed

lemma example_collect:
  "collect example_pyramid example_env = Inr [wiki_entry, edit_entry]"
  by code_simp

lemma map_sort_key: "map f (sort_key f xs) = sort (map f xs)"
proof (induction xs)
  case Nil
  then show ?case by simp
next
  case (Cons x xs)
  have "map f (insort_key f x ys) = insort (f x) (map f ys)" for ys
    by (induction ys) simp_all
  with Cons show ?case by simp
qed

section \<open>Predicates of a view\<close>

text \<open>
  Claim C7. The list returned by \<open>get_view_predicates\<close> holds, in the order of the
  view's \<open>__predicates__\<close>, the pair of class name and value of each predicate that has a
  \<open>val\<close> attribute, and nothing for the others; it is empty for \<open>None\<close> and for a view
  without \<open>__predicates__\<close>.
\<close>

theorem get_view_predicates_pairs:
  "get_view_predicates view =
     map (\<lambda>p. (class_name p, the (val p))) (filter (\<lambda>p. val p \<noteq> None) (attr_predicates view))
   \<and> get_view_predicates PyNone = []
   \<and> (predicates_attr a = None \<longrightarrow> get_view_predicates (PyObj w w' a) = [])"
  by (simp add: get_view_predicates_def predicates_loop_eq)

theorem get_view_predicates_pairs_witness:
  "get_view_predicates edit_page_view
     = [(''RequestMethodPredicate'', VTuple [VStr ''GET'', VStr ''POST''])]
   \<and> predicates_attr (function_attrs ''view_wiki'' (Inl OSError) None) = None
   \<and> get_view_predicates (PyObj None None (function_attrs ''view_wiki'' (Inl OSError) None)) = []"
  using get_view_predicates_pairs
    [of edit_page_view "function_attrs ''view_wiki'' (Inl OSError) None" None None]
  by (simp add: edit_page_view_def function_attrs_def)

section \<open>The list returned by collect\<close>

text \<open>
  Claim C8. Whenever \<open>collect\<close> returns, its list is sorted in ascending order of the
  entries' patterns; each entry holds a string under \<open>pattern\<close>, which is the sort key.
\<close>

theorem collect_sorted_by_pattern:
  assumes "collect fw env = Inr routes"
  shows "sorted (map pattern_of routes)
         \<and> (\<forall>e \<in> set routes. map_of e ''pattern'' = Some (VStr (pattern_of e)))"
proof
  from collect_entries [OF assms] show "sorted (map pattern_of routes)" by auto
next
  show "\<forall>e \<in> set routes. map_of e ''pattern'' = Some (VStr (pattern_of e))"
  proof
    fix e assume "e \<in> set routes"
    from collect_entry_has_route [OF assms this] obtain route where
      "route_entry fw (env_registry env) route = Inr e" by blast
    from route_entry_pattern [OF this] show "map_of e ''pattern'' = Some (VStr (pattern_of e))"
      by simp
  qed
qed

theorem collect_sorted_by_pattern_witness:
  "collect example_pyramid example_env = Inr [wiki_entry, edit_entry]
   \<and> sorted (map pattern_of [wiki_entry, edit_entry])
   \<and> map_of wiki_entry ''pattern'' = Some (VStr (pattern_of wiki_entry))
   \<and> map_of edit_entry ''pattern'' = Some (VStr (pattern_of edit_entry))"
  using collect_sorted_by_pattern [OF example_collect] example_collect by simp

text \<open>
  Claim C9. In the list returned by \<open>collect\<close> every entry holds under \<open>pattern\<close> a string
  that starts with \<open>/\<close>, and the patterns are those of the routes, with \<open>/\<close> put in front
  of each one that does not start with it and the others unchanged.
\<close>

theorem collect_pattern_leading_slash:
  assumes "collect fw env = Inr routes"
    and "routes_mapper (env_registry env) = Some items"
  shows "(\<forall>e \<in> set routes. \<exists>p. map_of e ''pattern'' = Some (VStr p) \<and> startswith p ''/'')
         \<and> map pattern_of routes =
             sort (map (\<lambda>item. if startswith (route_pattern (snd item)) ''/''
                               then route_pattern (snd item)
                               else ''/'' @ route_pattern (snd item)) items)"
proof -
  let ?norm = "\<lambda>item. if startswith (route_pattern (snd item)) ''/''
                      then route_pattern (snd item) else ''/'' @ route_pattern (snd item)"
  from collect_entries [OF assms(1)] assms(2) obtain es where
    all2: "list_all2 (\<lambda>item e. route_entry fw (env_registry env) (snd item) = Inr e) items es" and
    routes: "routes = sort_key pattern_of es"
    by auto
  from all2 have "list_all2 (\<lambda>item e. pattern_of e = ?norm item) items es"
    by (rule list_all2_mono) (simp add: route_entry_pattern)
  then have pats: "map pattern_of es = map ?norm items"
    by (induction rule: list_all2_induct) simp_all
  have "\<forall>e \<in> set routes. \<exists>p. map_of e ''pattern'' = Some (VStr p) \<and> startswith p ''/''"
  proof
    fix e assume "e \<in> set routes"
    from collect_entry_has_route [OF assms(1) this] obtain route where
      "route_entry fw (env_registry env) route = Inr e" by blast
    from route_entry_pattern(1) [OF this]
    show "\<exists>p. map_of e ''pattern'' = Some (VStr p) \<and> startswith p ''/''"
      by (simp add: startswith_def)
  qed
  moreover have "map pattern_of routes = sort (map ?norm items)"
    using routes pats by (simp add: map_sort_key)
  ultimately show ?thesis by simp
qed

theorem collect_pattern_leading_slash_witness:
  "collect example_pyramid example_env = Inr [wiki_entry, edit_entry]
   \<and> routes_mapper (env_registry example_env)
       = Some [(''edit_page'', edit_route), (''view_wiki'', wiki_route)]
   \<and> route_pattern edit_route = ''{pagename}/edit_page''
   \<and> map_of edit_entry ''pattern'' = Some (VStr ''/{pagename}/edit_page'')
   \<and> route_pattern wiki_route = ''/''
   \<and> map_of wiki_entry ''pattern'' = Some (VStr ''/'')
   \<and> map pattern_of [wiki_entry, edit_entry] = [''/'', ''/{pagename}/edit_page'']"
  using collect_pattern_leading_slash [OF example_collect,
      of "[(''edit_page'', edit_route), (''view_wiki'', wiki_route)]"]
    example_collect
  by (simp add: example_env_def example_registry_def edit_route_def wiki_route_def
      pattern_of_def wiki_entry_def edit_entry_def)
section \<open>Facts about docstrings and documents\<close>

lemma json_dump_doc_value: "json_dump (doc_value doc) \<noteq> None"
  by (auto simp: doc_value_def split: option.splits)

lemma first_literal_line_None:
  "first_literal_line n ls = None \<longleftrightarrow> (\<forall>l \<in> set ls. \<not> starts_string_literal l)"
  by (induction ls arbitrary: n) auto

lemma first_literal_line_Some:
  "first_literal_line n ls = Some k \<Longrightarrow> \<exists>l \<in> set ls. starts_string_literal l"
  using first_literal_line_None [of n ls] by auto

lemma get_docstring_Some:
  "get_docstring view = Inr (Some (f, n, d)) \<longleftrightarrow>
     inspect_getsourcefile (get_unwrapped view) = Inr f \<and>
     (\<exists>ls off. inspect_getsourcelines (get_unwrapped view) = Inr (ls, off) \<and>
        first_literal_line (max off 1) ls = Some n) \<and>
     inspect_getdoc (get_unwrapped view) = Some d"
  by (auto simp: get_docstring_def Let_def split: sum.splits option.splits)

lemma get_docstring_None:
  "get_docstring view = Inr None \<longleftrightarrow>
     inspect_getsourcefile (get_unwrapped view) = Inl TypeError \<or>
     (\<exists>f ls off. inspect_getsourcefile (get_unwrapped view) = Inr f \<and>
        inspect_getsourcelines (get_unwrapped view) = Inr (ls, off) \<and>
        ((\<forall>l \<in> set ls. \<not> starts_string_literal l) \<or> inspect_getdoc (get_unwrapped view) = None))"
  by (auto simp: get_docstring_def Let_def first_literal_line_None
      dest: first_literal_line_Some split: sum.splits option.splits)

lemma json_dump_items_lookup:
  "json_dump_items d = Some js \<Longrightarrow> map_of d k = Some v \<Longrightarrow>
     \<exists>jv. json_dump v = Some jv \<and> map_of (map (map_prod id json_to_py) js) k = Some (json_to_py jv)"
proof (induction d arbitrary: js)
  case Nil
  then show ?case by simp
next
  case (Cons item d)
  obtain k' v' where item: "item = (k', v')" by (cases item)
  from Cons.prems(1) item obtain j' js' where
    j': "json_dump v' = Some j'" and js': "json_dump_items d = Some js'" and
    js: "js = (k', j') # js'"
    by (auto split: option.splits)
  show ?case
  proof (cases "k' = k")
    case True
    with Cons.prems(2) item j' js show ?thesis by simp
  next
    case False
    with Cons.prems(2) item have "map_of d k = Some v" by simp
    from Cons.IH [OF js' this] False js show ?thesis by simp
  qed
qed

lemma json_roundtrip_getitem:
  assumes "json_dump (VDict d) = Some j" and "map_of d k = Some v"
  shows "\<exists>jv. json_dump v = Some jv \<and> getitem (json_to_py j) k = Inr (json_to_py jv)"
proof -
  from assms(1) obtain js where js: "json_dump_items d = Some js" and j: "j = JObj js"
    by auto
  from json_dump_items_lookup [OF js assms(2)] j show ?thesis by auto
qed

lemma docstring_nodes_method_nodes: "concat (map docstring_nodes (method_nodes i ms)) = []"
  by (induction ms arbitrary: i) simp_all

lemma render_request_methods_no_docstring:
  "render_request_methods r = Inr ms \<Longrightarrow> concat (map docstring_nodes ms) = []"
  by (auto simp: render_request_methods_def docstring_nodes_method_nodes
      split: sum.splits if_splits)

lemma render_response_no_docstring:
  "render_response r = Inr ns \<Longrightarrow> concat (map docstring_nodes ns) = []"
  by (auto simp: render_response_def split: sum.splits if_splits)

lemma render_response_present:
  "getitem r ''renderer'' = Inr v \<Longrightarrow> \<exists>ns. render_response r = Inr ns"
  by (simp add: render_response_def)

lemma strip_prefix_str: "\<exists>t. strip_prefix options (VStr p) = Inr t"
  by (simp add: strip_prefix_def Let_def)

lemma render_route_without_doc:
  assumes "getitem r ''doc'' = Inr VNone"
    and "getitem r ''pattern'' = Inr (VStr p)"
    and "render_request_methods r = Inr ms"
    and "getitem r ''renderer'' = Inr v"
  shows "\<exists>n. render_route options env r = Inr (n, env\<lparr>serialno := serialno env + 1\<rparr>) \<and>
           docstring_nodes n = []"
proof -
  from strip_prefix_str obtain t where t: "strip_prefix options (VStr p) = Inr t" by blast
  from render_response_present [OF assms(4)] obtain ns where ns: "render_response r = Inr ns"
    by blast
  have "render_route options env r
          = Inr (Section (RouteId (serialno env)) ([Title t] @ ms @ ns),
                 env\<lparr>serialno := serialno env + 1\<rparr>)"
    using assms(1-3) t ns by (simp add: render_route_def)
  moreover have "docstring_nodes (Section (RouteId (serialno env)) ([Title t] @ ms @ ns)) = []"
    using render_request_methods_no_docstring [OF assms(3)] render_response_no_docstring [OF ns]
    by simp
  ultimately show ?thesis by simp
qed

section \<open>The example application behind the helper script\<close>

lemma example_main:
  "main example_pyramid (\<lambda>config. Inr example_env) Map.empty
     \<lparr>opt_config = ''/home/andy/development.ini'', opt_prefix = Some ''/{'', opt_group = None\<rparr>
   = Inr edit_document"
  by code_simp

lemma example_args:
  "get_routes_args example_world ''~/development.ini'' (Some ''/{'') (Some [])
     = [''/usr/bin/python'', ''wegweiser/extract.py'', ''/home/andy/development.ini'',
        ''--prefix=/{'']"
  by (simp add: get_routes_args_def example_world_def str_truthy_def)

lemma example_stdout:
  "script_stdout example_script [''/home/andy/development.ini'', ''--prefix=/{''] = ''[edit_page]''"
  using example_main
  by (simp add: script_stdout_def main_args_def example_script_def startswith_def)

lemma example_get_routes:
  "get_routes example_world ''~/development.ini'' (Some ''/{'') (Some [])
     = Inr (json_to_py edit_document)"
  using example_stdout
  by (simp add: get_routes_def example_args) (simp add: example_world_def)

section \<open>The shape of a route entry\<close>

text \<open>
  What every entry of the list returned by \<open>collect\<close> has: exactly the keys \<open>name\<close>,
  \<open>pattern\<close>, \<open>predicates\<close>, \<open>module\<close>, \<open>doc\<close> and \<open>renderer\<close>; name, pattern and module
  are strings and the predicates are a list; \<open>doc\<close> is \<open>None\<close> or a triple of the source
  file name (or \<open>None\<close>), a line number and the docstring; \<open>renderer\<close> is \<open>None\<close> or the name
  of the renderer of the route's view. Whether \<open>json.dump\<close> accepts the entry depends on
  its list of predicates alone.
\<close>

lemma collect_entry_well_formed:
  assumes "collect fw env = Inr routes" and "e \<in> set routes"
  shows "map fst e = [''name'', ''pattern'', ''predicates'', ''module'', ''doc'', ''renderer'']
     \<and> (\<exists>name pattern predicates module.
           map_of e ''name'' = Some (VStr name) \<and> map_of e ''pattern'' = Some (VStr pattern) \<and>
           map_of e ''predicates'' = Some (VList predicates) \<and>
           map_of e ''module'' = Some (VStr module) \<and>
           (json_dump (VDict e) \<noteq> None) = (json_dump (VList predicates) \<noteq> None))
     \<and> (map_of e ''doc'' = Some VNone \<or>
         (\<exists>f n d. map_of e ''doc'' = Some (VTuple [f, VInt n, VStr d]) \<and>
                  (f = VNone \<or> (\<exists>s. f = VStr s))))
     \<and> (map_of e ''renderer'' = Some VNone \<or>
         (\<exists>route r. route_entry fw (env_registry env) route = Inr e \<and>
            get_view_renderer (find_view fw (env_registry env) route) = Inr (CRenderer r) \<and>
            map_of e ''renderer'' = Some (VStr (renderer_name r))))"
proof -
  from collect_entry_has_route [OF assms] obtain items name route where
    items: "routes_mapper (env_registry env) = Some items" and
    mem: "(name, route) \<in> set items" and
    entry: "route_entry fw (env_registry env) route = Inr e"
    by blast
  let ?view = "find_view fw (env_registry env) route"
  from route_entry_shape [OF entry] obtain renderer m doc where
    rend: "get_view_renderer ?view = Inr renderer" and
    e: "e = [(''name'', VStr (route_name route)),
             (''pattern'', VStr (if startswith (route_pattern route) ''/''
                                 then route_pattern route else ''/'' @ route_pattern route)),
             (''predicates'', predicates_value (get_view_predicates ?view)),
             (''module'', VStr m),
             (''doc'', doc_value doc),
             (''renderer'', case renderer of CRenderer r \<Rightarrow> VStr (renderer_name r) | _ \<Rightarrow> VNone)]"
    by blast
  have keys: "map fst e = [''name'', ''pattern'', ''predicates'', ''module'', ''doc'', ''renderer'']"
    by (simp add: e)
  have "json_dump (case renderer of CRenderer r \<Rightarrow> VStr (renderer_name r) | _ \<Rightarrow> VNone) \<noteq> None"
    by (cases renderer) simp_all
  then have dump: "(json_dump (VDict e) \<noteq> None) = (json_dump (predicates_value (get_view_predicates ?view)) \<noteq> None)"
    using json_dump_doc_value [of doc] by (auto simp: e split: option.splits)
  have fields: "\<exists>name pattern predicates module.
           map_of e ''name'' = Some (VStr name) \<and> map_of e ''pattern'' = Some (VStr pattern) \<and>
           map_of e ''predicates'' = Some (VList predicates) \<and>
           map_of e ''module'' = Some (VStr module) \<and>
           (json_dump (VDict e) \<noteq> None) = (json_dump (VList predicates) \<noteq> None)"
    using dump by (simp add: e predicates_value_def)
  have doc: "map_of e ''doc'' = Some VNone \<or>
         (\<exists>f n d. map_of e ''doc'' = Some (VTuple [f, VInt n, VStr d]) \<and>
                  (f = VNone \<or> (\<exists>s. f = VStr s)))"
    by (auto simp: e doc_value_def split: option.splits)
  have rendf: "map_of e ''renderer'' = Some VNone \<or>
         (\<exists>route r. route_entry fw (env_registry env) route = Inr e \<and>
            get_view_renderer (find_view fw (env_registry env) route) = Inr (CRenderer r) \<and>
            map_of e ''renderer'' = Some (VStr (renderer_name r)))"
  proof (cases renderer)
    case (CRenderer r)
    have "map_of e ''renderer'' = Some (VStr (renderer_name r))"
      by (simp add: e CRenderer)
    with entry rend CRenderer show ?thesis
      by (intro disjI2 exI [of _ route] exI [of _ r]) simp
  qed (simp_all add: e)
  from keys fields doc rendf show ?thesis by blast
qed

lemma collect_entry_well_formed_example:
  "collect example_pyramid example_env = Inr [wiki_entry, edit_entry]
   \<and> map fst edit_entry = [''name'', ''pattern'', ''predicates'', ''module'', ''doc'', ''renderer'']
   \<and> map_of edit_entry ''doc''
       = Some (VTuple [VStr ''example/views.py'', VInt 20, VStr ''Edit an existing wiki page.''])
   \<and> map_of edit_entry ''renderer'' = Some (VStr ''templates/edit.pt'')
   \<and> json_dump (VDict edit_entry) \<noteq> None"
  using collect_entry_well_formed [OF example_collect, of edit_entry] example_collect
  by (simp add: edit_entry_def)

lemma json_dump_list_None:
  "x \<in> set xs \<Longrightarrow> json_dump x = None \<Longrightarrow> json_dump_list xs = None"
  by (induction xs) (auto split: option.splits)

text \<open>
  One entry that \<open>json.dump\<close> rejects is enough: \<open>main\<close> ends with \<open>TypeError\<close> instead of
  writing the document of the routes.
\<close>

lemma main_raises_on_unserialisable:
  assumes "bootstrap (opt_config opts) = Inr e" and "collect fw e = Inr routes"
    and "opt_prefix opts = None" and "opt_group opts = None"
    and "r \<in> set routes" and "json_dump (VDict r) = None"
  shows "main fw bootstrap sys_modules opts = Inl TypeError"
proof -
  from assms(5) have "VDict r \<in> set (map VDict routes)" by simp
  from json_dump_list_None [OF this assms(6)]
  have "json_dump (VList (map VDict routes)) = None" by simp
  with assms(1-4) show ?thesis
    by (simp add: main_def str_truthy_def del: json_dump.simps)
qed

lemma path_info_collect:
  "collect example_pyramid (single_route_env (Some path_info_view)) = Inr [path_info_entry]"
  by code_simp

text \<open>
  Claim C6. Every entry that \<open>collect\<close> produces should be a dictionary that can be
  serialised as JSON. For a view registered with a \<open>path_info\<close> predicate, \<open>collect\<close>
  returns an entry with the six keys whose list of predicates holds the compiled
  pattern, stored by \<open>get_view_predicates\<close> as it is: \<open>json.dump\<close> rejects the entry, and
  \<open>main\<close> ends with \<open>TypeError\<close> where the script is to print a JSON document.
\<close>

theorem collect_entry_not_serialisable:
  "collect example_pyramid (single_route_env (Some path_info_view)) = Inr [path_info_entry]
   \<and> map fst path_info_entry = [''name'', ''pattern'', ''predicates'', ''module'', ''doc'', ''renderer'']
   \<and> map_of path_info_entry ''predicates''
       = Some (VList [VTuple [VStr ''PathInfoPredicate'', VOpaque ''re.compile'']])
   \<and> json_dump (VDict path_info_entry) = None
   \<and> main example_pyramid (\<lambda>config. Inr (single_route_env (Some path_info_view))) Map.empty
        \<lparr>opt_config = ''/home/andy/development.ini'', opt_prefix = None, opt_group = None\<rparr>
      = Inl TypeError"
  by (simp add: path_info_collect) code_simp

section \<open>The docstring of a route\<close>

text \<open>
  Claim C1, amended. When \<open>collect\<close> returns, every route of the mapper has its entry in
  the list, and the entry's \<open>doc\<close> is \<open>None\<close> or a triple whose docstring is the one that
  \<open>inspect.getdoc\<close> gives for the fully unwrapped view (\<open>__wraps__\<close>, then \<open>__wrapped__\<close>,
  followed to the end). The triple is stored when the unwrapped view has a source file,
  its source lines are retrieved and one of them starts with a quote, and
  \<open>inspect.getdoc\<close> finds a docstring. The \<open>doc\<close> is \<open>None\<close> when \<open>inspect.getsourcefile\<close>
  raises \<open>TypeError\<close> for the unwrapped view, with or without a docstring.
\<close>

theorem collect_doc_matches_getdoc:
  assumes "collect fw env = Inr routes"
    and "routes_mapper (env_registry env) = Some items"
    and "(name, route) \<in> set items"
  shows "\<exists>e \<in> set routes. route_entry fw (env_registry env) route = Inr e \<and>
           (map_of e ''doc'' = Some VNone \<or>
            (\<exists>f n d. map_of e ''doc'' = Some (VTuple [f, VInt n, VStr d]) \<and>
               inspect_getdoc (get_unwrapped (find_view fw (env_registry env) route)) = Some d)) \<and>
           ((\<exists>f. inspect_getsourcefile (get_unwrapped (find_view fw (env_registry env) route)) = Inr f) \<and>
            (\<exists>ls off. inspect_getsourcelines (get_unwrapped (find_view fw (env_registry env) route))
                         = Inr (ls, off) \<and> (\<exists>l \<in> set ls. starts_string_literal l)) \<and>
            inspect_getdoc (get_unwrapped (find_view fw (env_registry env) route)) = Some d'
            \<longrightarrow> (\<exists>f n. map_of e ''doc'' = Some (VTuple [f, VInt n, VStr d']))) \<and>
           (inspect_getsourcefile (get_unwrapped (find_view fw (env_registry env) route)) = Inl TypeError
            \<longrightarrow> map_of e ''doc'' = Some VNone)"
proof -
  let ?func = "get_unwrapped (find_view fw (env_registry env) route)"
  from collect_route_has_entry [OF assms] obtain e where
    mem: "e \<in> set routes" and entry: "route_entry fw (env_registry env) route = Inr e"
    by blast
  from route_entry_shape [OF entry] obtain doc where
    doc: "get_docstring (find_view fw (env_registry env) route) = Inr doc" and
    field: "map_of e ''doc'' = Some (doc_value doc)"
    by auto
  have "(map_of e ''doc'' = Some VNone \<or>
            (\<exists>f n d. map_of e ''doc'' = Some (VTuple [f, VInt n, VStr d]) \<and>
               inspect_getdoc ?func = Some d)) \<and>
        ((\<exists>f. inspect_getsourcefile ?func = Inr f) \<and>
            (\<exists>ls off. inspect_getsourcelines ?func = Inr (ls, off) \<and>
                (\<exists>l \<in> set ls. starts_string_literal l)) \<and>
            inspect_getdoc ?func = Some d'
            \<longrightarrow> (\<exists>f n. map_of e ''doc'' = Some (VTuple [f, VInt n, VStr d']))) \<and>
        (inspect_getsourcefile ?func = Inl TypeError \<longrightarrow> map_of e ''doc'' = Some VNone)"
  proof (cases doc)
    case None
    with doc have "get_docstring (find_view fw (env_registry env) route) = Inr None" by simp
    then have "\<not> ((\<exists>f. inspect_getsourcefile ?func = Inr f) \<and>
               (\<exists>ls off. inspect_getsourcelines ?func = Inr (ls, off) \<and>
                   (\<exists>l \<in> set ls. starts_string_literal l)) \<and>
               inspect_getdoc ?func = Some d')"
      unfolding get_docstring_None by auto
    moreover have "map_of e ''doc'' = Some VNone"
      using field None by (simp add: doc_value_def)
    ultimately show ?thesis by simp
  next
    case (Some t)
    obtain f n d where t: "t = (f, n, d)" by (cases t)
    with doc Some have "get_docstring (find_view fw (env_registry env) route) = Inr (Some (f, n, d))"
      by simp
    then have src: "inspect_getsourcefile ?func = Inr f"
      and gd: "inspect_getdoc ?func = Some d"
      unfolding get_docstring_Some by auto
    have "map_of e ''doc''
        = Some (VTuple [case f of None \<Rightarrow> VNone | Some s \<Rightarrow> VStr s, VInt n, VStr d])"
      using field Some t by (simp add: doc_value_def)
    with src gd show ?thesis by auto
  qed
  with mem entry show ?thesis by blast
qed

lemma example_find_edit:
  "get_unwrapped (find_view example_pyramid (env_registry example_env) edit_route) = edit_page"
  by code_simp

lemma example_items:
  "routes_mapper (env_registry example_env)
     = Some [(''edit_page'', edit_route), (''view_wiki'', wiki_route)]"
  by (simp add: example_env_def example_registry_def)

theorem collect_doc_matches_getdoc_witness:
  "collect example_pyramid example_env = Inr [wiki_entry, edit_entry]
   \<and> routes_mapper (env_registry example_env)
       = Some [(''edit_page'', edit_route), (''view_wiki'', wiki_route)]
   \<and> get_unwrapped (find_view example_pyramid (env_registry example_env) edit_route) = edit_page
   \<and> inspect_getdoc edit_page = Some ''Edit an existing wiki page.''
   \<and> map_of edit_entry ''doc''
       = Some (VTuple [VStr ''example/views.py'', VInt 20, VStr ''Edit an existing wiki page.''])"
  using collect_doc_matches_getdoc [OF example_collect example_items, of "''edit_page''" edit_route]
    example_collect example_items example_find_edit
  by (simp add: edit_entry_def edit_page_def function_attrs_def)

text \<open>
  A view that is a callable instance with a docstring: \<open>inspect.getdoc\<close> finds the
  docstring, \<open>get_docstring\<close> returns \<open>None\<close> in its \<open>except TypeError\<close> branch, and the
  entry's \<open>doc\<close> is \<open>None\<close>.
\<close>

lemma instance_collect:
  "collect example_pyramid (single_route_env (Some instance_view)) = Inr [undocumented_entry]"
  by code_simp

theorem instance_docstring_not_collected:
  "inspect_getdoc (get_unwrapped instance_view) = Some ''Serve the wiki page.''
   \<and> inspect_getsourcefile (get_unwrapped instance_view) = Inl TypeError
   \<and> collect example_pyramid (single_route_env (Some instance_view)) = Inr [undocumented_entry]
   \<and> map_of undocumented_entry ''doc'' = Some VNone"
  by (simp add: instance_collect) code_simp

section \<open>A route without a view\<close>

lemma collect_loop_raises:
  "(name, route) \<in> set items \<Longrightarrow> route_entry fw reg route = Inl err \<Longrightarrow>
     \<exists>err'. collect_loop fw reg items acc = Inl err'"
proof (induction items arbitrary: acc)
  case Nil
  then show ?case by simp
next
  case (Cons item items)
  obtain n r where item: "item = (n, r)" by (cases item)
  show ?case
  proof (cases "route_entry fw reg r")
    case (Inl e)
    with item show ?thesis by simp
  next
    case (Inr v)
    with Cons.prems item have "(name, route) \<in> set items" by auto
    from Cons.IH [OF this Cons.prems(2)] Inr item show ?thesis by simp
  qed
qed

text \<open>
  Claim C3. A route without a view: \<open>find_view\<close> returns \<open>None\<close>; the renderer, the
  predicates and the docstring degrade to nothing, but \<open>inspect.getmodule(None).__name__\<close>
  raises \<open>AttributeError\<close>, so the loop body builds no entry and \<open>collect\<close> ends with an
  exception instead of a list.
\<close>

theorem collect_missing_view_raises:
  assumes "routes_mapper (env_registry env) = Some items"
    and "(name, route) \<in> set items"
    and "find_view fw (env_registry env) route = PyNone"
  shows "get_view_renderer PyNone = Inr CNone \<and> get_view_predicates PyNone = []
         \<and> get_docstring PyNone = Inr None
         \<and> route_entry fw (env_registry env) route = Inl AttributeError
         \<and> (\<exists>err. collect fw env = Inl err)"
proof -
  have r: "get_view_renderer PyNone = Inr CNone"
    by (simp add: get_view_renderer_def)
  have d: "get_docstring PyNone = Inr None"
    by (simp add: get_docstring_def)
  have entry: "route_entry fw (env_registry env) route = Inl AttributeError"
    using assms(3) r by (simp add: route_entry_def)
  from collect_loop_raises [OF assms(2) entry] obtain err' where
    "collect_loop fw (env_registry env) items [] = Inl err'" by blast
  with assms(1) have "collect fw env = Inl err'" by (simp add: collect_def)
  with r d entry show ?thesis by (simp add: get_view_predicates_def)
qed

lemma missing_view_collect:
  "collect example_pyramid (single_route_env None) = Inl AttributeError"
  by code_simp

theorem collect_missing_view_raises_witness:
  "routes_mapper (env_registry (single_route_env None)) = Some [(''view_wiki'', wiki_route)]
   \<and> find_view example_pyramid (env_registry (single_route_env None)) wiki_route = PyNone
   \<and> route_entry example_pyramid (env_registry (single_route_env None)) wiki_route
       = Inl AttributeError
   \<and> collect example_pyramid (single_route_env None) = Inl AttributeError"
proof -
  have items: "routes_mapper (env_registry (single_route_env None)) = Some [(''view_wiki'', wiki_route)]"
    by (simp add: single_route_env_def example_registry_def)
  have view: "find_view example_pyramid (env_registry (single_route_env None)) wiki_route = PyNone"
    by (simp add: single_route_env_def find_view_example)
  from collect_missing_view_raises [OF items _ view, of "''view_wiki''"] items view
    missing_view_collect
  show ?thesis by simp
qed


section \<open>A view without a docstring\<close>

text \<open>
  The cases that \<open>get_docstring\<close> handles. It returns \<open>None\<close> when
  \<open>inspect.getsourcefile\<close> raises \<open>TypeError\<close> for the unwrapped view, and when the source
  file and the source lines are retrieved and either no line starts with a quote or
  \<open>inspect.getdoc\<close> returns \<open>None\<close>. The entry that \<open>collect\<close> builds for the route then has
  \<open>None\<close> under \<open>doc\<close>, which is \<open>null\<close> in the document and \<open>None\<close> again after
  \<open>json.loads\<close>; and if the request methods of that entry can be rendered,
  \<open>_render_route\<close> returns a section without any docstring content and raises nothing.
\<close>

lemma missing_docstring_degrades:
  "(inspect_getsourcefile (get_unwrapped view) = Inl TypeError \<longrightarrow> get_docstring view = Inr None)
   \<and> (inspect_getsourcefile (get_unwrapped view) = Inr f \<and>
        inspect_getsourcelines (get_unwrapped view) = Inr (ls, off) \<and>
        ((\<forall>l \<in> set ls. \<not> starts_string_literal l) \<or> inspect_getdoc (get_unwrapped view) = None)
      \<longrightarrow> get_docstring view = Inr None)
   \<and> (get_docstring (find_view fw reg route) = Inr None \<and> route_entry fw reg route = Inr e
      \<longrightarrow> map_of e ''doc'' = Some VNone \<and>
          (\<forall>j ms. json_dump (VDict e) = Some j \<and> render_request_methods (json_to_py j) = Inr ms
             \<longrightarrow> getitem (json_to_py j) ''doc'' = Inr VNone \<and>
                 (\<exists>n. render_route options env (json_to_py j)
                         = Inr (n, env\<lparr>serialno := serialno env + 1\<rparr>) \<and>
                      docstring_nodes n = [])))"
proof (intro conjI impI allI)
  assume "inspect_getsourcefile (get_unwrapped view) = Inl TypeError"
  then show "get_docstring view = Inr None" by (simp add: get_docstring_None)
next
  assume "inspect_getsourcefile (get_unwrapped view) = Inr f \<and>
        inspect_getsourcelines (get_unwrapped view) = Inr (ls, off) \<and>
        ((\<forall>l \<in> set ls. \<not> starts_string_literal l) \<or> inspect_getdoc (get_unwrapped view) = None)"
  then show "get_docstring view = Inr None" unfolding get_docstring_None by blast
next
  assume a: "get_docstring (find_view fw reg route) = Inr None \<and> route_entry fw reg route = Inr e"
  with route_entry_shape [of fw reg route e]
  show "map_of e ''doc'' = Some VNone" by (auto simp: doc_value_def)
next
  fix j ms
  assume a: "get_docstring (find_view fw reg route) = Inr None \<and> route_entry fw reg route = Inr e"
    and b: "json_dump (VDict e) = Some j \<and> render_request_methods (json_to_py j) = Inr ms"
  from a route_entry_shape [of fw reg route e] obtain p rv where
    doc: "map_of e ''doc'' = Some VNone" and
    pat: "map_of e ''pattern'' = Some (VStr p)" and
    rend: "map_of e ''renderer'' = Some rv"
    by (auto simp: doc_value_def)
  from b have dump: "json_dump (VDict e) = Some j" by simp
  from json_roundtrip_getitem [OF dump doc]
  have doc': "getitem (json_to_py j) ''doc'' = Inr VNone" by auto
  from json_roundtrip_getitem [OF dump pat]
  have pat': "getitem (json_to_py j) ''pattern'' = Inr (VStr p)" by auto
  from json_roundtrip_getitem [OF dump rend] obtain v
    where rend': "getitem (json_to_py j) ''renderer'' = Inr v" by auto
  from b have ms: "render_request_methods (json_to_py j) = Inr ms" by simp
  from doc' show "getitem (json_to_py j) ''doc'' = Inr VNone" .
  from render_route_without_doc [OF doc' pat' ms rend']
  show "\<exists>n. render_route options env (json_to_py j)
               = Inr (n, env\<lparr>serialno := serialno env + 1\<rparr>) \<and> docstring_nodes n = []" .
qed


lemma raw_doc_entry:
  "route_entry example_pyramid (env_registry (single_route_env (Some raw_doc_view))) wiki_route
     = Inr undocumented_entry"
  by code_simp

lemma undocumented_dump: "json_dump (VDict undocumented_entry) = Some undocumented_json"
  by code_simp

lemma undocumented_methods: "render_request_methods (json_to_py undocumented_json) = Inr []"
  by code_simp

lemma raw_doc_source:
  "inspect_getsourcefile (get_unwrapped raw_doc_view) = Inr (Some ''example/views.py'')
   \<and> inspect_getsourcelines (get_unwrapped raw_doc_view)
       = Inr ([''def raw_doc(request):'', ''    r'' @ [CHR 0x22] @ ''A raw docstring.'' @ [CHR 0x22]], 23)"
  by (simp add: raw_doc_view_def function_attrs_def)

lemma raw_doc_lines:
  "\<forall>l \<in> set [''def raw_doc(request):'', ''    r'' @ [CHR 0x22] @ ''A raw docstring.'' @ [CHR 0x22]].
     \<not> starts_string_literal l"
  by (simp add: starts_string_literal_def lstrip_def is_space_def startswith_def)

lemma missing_docstring_degrades_witness:
  "inspect_getsourcefile (get_unwrapped PyNone) = Inl TypeError
   \<and> get_docstring PyNone = Inr None
   \<and> inspect_getsourcefile (get_unwrapped raw_doc_view) = Inr (Some ''example/views.py'')
   \<and> get_docstring raw_doc_view = Inr None
   \<and> route_entry example_pyramid (env_registry (single_route_env (Some raw_doc_view))) wiki_route
       = Inr undocumented_entry
   \<and> map_of undocumented_entry ''doc'' = Some VNone
   \<and> json_dump (VDict undocumented_entry) = Some undocumented_json
   \<and> render_request_methods (json_to_py undocumented_json) = Inr []
   \<and> render_route Map.empty example_build_env (json_to_py undocumented_json)
       = Inr (Section (RouteId 0) [Title (VStr ''/'')], example_build_env\<lparr>serialno := 1\<rparr>)"
proof -
  have view: "find_view example_pyramid (env_registry (single_route_env (Some raw_doc_view))) wiki_route
                = raw_doc_view"
    by (simp add: single_route_env_def find_view_example)
  have none: "get_docstring PyNone = Inr None"
    using missing_docstring_degrades [of PyNone] by simp
  have raw: "get_docstring raw_doc_view = Inr None"
    using missing_docstring_degrades [of raw_doc_view "Some ''example/views.py''"
        "[''def raw_doc(request):'', ''    r'' @ [CHR 0x22] @ ''A raw docstring.'' @ [CHR 0x22]]" 23]
      raw_doc_source raw_doc_lines
    by blast
  have "map_of undocumented_entry ''doc'' = Some VNone \<and>
        (\<exists>n. render_route Map.empty example_build_env (json_to_py undocumented_json)
                = Inr (n, example_build_env\<lparr>serialno := serialno example_build_env + 1\<rparr>) \<and>
             docstring_nodes n = [])"
    using missing_docstring_degrades [of undefined undefined undefined undefined
        example_pyramid "env_registry (single_route_env (Some raw_doc_view))" wiki_route
        undocumented_entry Map.empty example_build_env]
      view raw raw_doc_entry undocumented_dump undocumented_methods
    by simp
  moreover have "render_route Map.empty example_build_env (json_to_py undocumented_json)
       = Inr (Section (RouteId 0) [Title (VStr ''/'')], example_build_env\<lparr>serialno := 1\<rparr>)"
    by (simp add: render_route_def undocumented_json_def
        undocumented_methods [unfolded undocumented_json_def, simplified]
        strip_prefix_def str_truthy_def render_response_def example_build_env_def)
  ultimately show ?thesis
    using none raw raw_doc_source raw_doc_entry undocumented_dump undocumented_methods by simp
qed

text \<open>An exception of \<open>inspect.getsourcelines\<close> leaves \<open>get_docstring\<close> as it is.\<close>

lemma get_docstring_raises:
  "inspect_getsourcefile (get_unwrapped view) = Inr f \<Longrightarrow>
   inspect_getsourcelines (get_unwrapped view) = Inl err \<Longrightarrow> get_docstring view = Inl err"
  by (simp add: get_docstring_def)

text \<open>
  Claim C5. A view without a docstring should get \<open>None\<close> from \<open>get_docstring\<close> and
  \<open>null\<close> as the \<open>doc\<close> of its route. For a view function without a docstring whose
  module was imported without its source file, \<open>inspect.getdoc\<close> returns \<open>None\<close>, but
  \<open>inspect.getsourcelines\<close> raises \<open>OSError\<close>; \<open>get_docstring\<close> catches the \<open>TypeError\<close>
  of \<open>inspect.getsourcefile\<close> only, so it raises, and \<open>collect\<close> ends with the exception
  instead of an entry.
\<close>

theorem undocumented_view_without_source:
  "inspect_getdoc (get_unwrapped sourceless_view) = None
   \<and> inspect_getsourcefile (get_unwrapped sourceless_view) = Inr (Some ''example/views.py'')
   \<and> get_docstring sourceless_view = Inl OSError
   \<and> collect example_pyramid (single_route_env (Some sourceless_view)) = Inl OSError"
  by code_simp
section \<open>The group of the pyramidroutes directive\<close>

text \<open>No function of the rendering code builds a directive error.\<close>

lemma getitem_error: "getitem v k = Inl e \<Longrightarrow> e = KeyError \<or> e = TypeError"
  by (cases v) (auto split: option.splits)

lemma getitem_0_error: "getitem_0 v = Inl e \<Longrightarrow> e = KeyError \<or> e = TypeError \<or> e = IndexError"
  by (cases v) (auto split: list.splits)

lemma py_iter_error: "py_iter v = Inl e \<Longrightarrow> e = TypeError"
  by (cases v) auto

lemma add_source_error: "add_source env doc = Inl e \<Longrightarrow> e \<noteq> DirectiveError t a"
  by (auto simp: add_source_def split: option.splits sum.splits if_splits dest: getitem_0_error)

lemma strip_prefix_error: "strip_prefix options p = Inl e \<Longrightarrow> e = AttributeError"
  by (auto simp: strip_prefix_def Let_def split: if_splits pyvalue.splits)

lemma request_methods_loop_error:
  "request_methods_loop items = Inl e \<Longrightarrow> e = TypeError \<or> e = ValueError"
proof (induction items)
  case Nil
  then show ?case by simp
next
  case (Cons item items)
  then show ?case
    by (auto split: sum.splits list.splits if_splits dest: py_iter_error)
qed

lemma render_request_methods_error:
  "render_request_methods r = Inl e \<Longrightarrow> e \<noteq> DirectiveError t a"
  by (auto simp: render_request_methods_def get_request_methods_def
      split: sum.splits if_splits
      dest: py_iter_error getitem_error request_methods_loop_error)

lemma render_response_error: "render_response r = Inl e \<Longrightarrow> e \<noteq> DirectiveError t a"
  by (auto simp: render_response_def split: sum.splits if_splits dest: getitem_error)

lemma render_docstring_error:
  "render_docstring d = Inl e \<Longrightarrow> e = TypeError \<or> e = AttributeError"
  by (auto simp: render_docstring_def split: sum.splits list.splits pyvalue.splits
      dest: py_iter_error)

lemma render_route_error: "render_route options env r = Inl e \<Longrightarrow> e \<noteq> DirectiveError t a"
  by (auto simp: render_route_def Let_def split: sum.splits if_splits
      dest: getitem_error add_source_error strip_prefix_error render_request_methods_error
        render_response_error render_docstring_error)

lemma render_routes_error: "render_routes options env rs = Inl e \<Longrightarrow> e \<noteq> DirectiveError t a"
proof (induction rs arbitrary: env)
  case Nil
  then show ?case by simp
next
  case (Cons r rs)
  then show ?case
    by (auto split: sum.splits prod.splits dest: render_route_error)
qed

lemma default_group_renderer_error:
  "default_group_renderer options env routes = Inl e \<Longrightarrow> e \<noteq> DirectiveError t a"
  by (auto simp: default_group_renderer_def split: sum.splits
      dest: py_iter_error render_routes_error)

lemma render_module_error:
  "render_module options env name m = Inl e \<Longrightarrow> e \<noteq> DirectiveError t a"
  by (auto simp: render_module_def split: sum.splits if_splits prod.splits
      dest: getitem_error py_iter_error render_docstring_error add_source_error
        render_routes_error)

lemma render_modules_error:
  "render_modules options env items = Inl e \<Longrightarrow> e \<noteq> DirectiveError t a"
proof (induction items arbitrary: env)
  case Nil
  then show ?case by simp
next
  case (Cons item items)
  obtain name m where "item = (name, m)" by (cases item)
  with Cons show ?case
    by (auto split: sum.splits prod.splits dest: render_module_error)
qed

lemma module_group_renderer_error:
  "module_group_renderer options env modules = Inl e \<Longrightarrow> e \<noteq> DirectiveError t a"
  by (cases modules) (auto simp: module_group_renderer_def dest: render_modules_error)

lemma directive_get_routes_error:
  "directive_get_routes w env prefix group_by = Inl e \<Longrightarrow> e \<noteq> DirectiveError t a"
  by (auto simp: directive_get_routes_def get_routes_def split: option.splits)

text \<open>With a registered group, \<open>run\<close> raises no directive error.\<close>

lemma run_registered:
  assumes reg: "map_of group_renderer (case options ''groupby'' of None \<Rightarrow> [] | Some g \<Rightarrow> g) \<noteq> None"
  shows "run w env options \<noteq> Inl (DirectiveError t a)"
proof
  let ?g = "case options ''groupby'' of None \<Rightarrow> [] | Some g \<Rightarrow> g"
  assume r: "run w env options = Inl (DirectiveError t a)"
  show False
  proof (cases "directive_get_routes w (prepare_env env) (options ''prefix'') (Some ?g)")
    case (Inl err)
    with r have "err = DirectiveError t a" by (simp add: run_def Let_def)
    with directive_get_routes_error [OF Inl, of t a] show False by simp
  next
    case (Inr routes)
    from reg consider "?g = []" | "?g = ''module''"
      by (auto simp: group_renderer_def split: if_splits)
    then show False
    proof cases
      case 1
      with r Inr have "default_group_renderer options (prepare_env env) routes
                         = Inl (DirectiveError t a)"
        by (simp add: run_def Let_def group_renderer_def)
      from default_group_renderer_error [OF this, of t a] show False by simp
    next
      case 2
      with r Inr have "module_group_renderer options (prepare_env env) routes
                         = Inl (DirectiveError t a)"
        by (simp add: run_def Let_def group_renderer_def)
      from module_group_renderer_error [OF this, of t a] show False by simp
    qed
  qed
qed

text \<open>The conversion of the options: what it lets through, and how it fails.\<close>

lemma choice_result:
  "choice normalise [''module''] argument = Inr v \<Longrightarrow> v = ''module''"
  by (auto simp: choice_def Let_def split: option.splits if_splits)

lemma convert_options_groupby:
  "convert_options (option_spec normalise) written options = Inr options' \<Longrightarrow>
   options ''groupby'' = None \<or> options ''groupby'' = Some ''module'' \<Longrightarrow>
   options' ''groupby'' = None \<or> options' ''groupby'' = Some ''module''"
proof (induction written arbitrary: options)
  case Nil
  then show ?case by simp
next
  case (Cons item written)
  obtain name argument where item: "item = (name, argument)" by (cases item)
  from Cons.prems(1) item obtain convertor v where
    conv: "map_of (option_spec normalise) name = Some convertor" and
    v: "convertor argument = Inr v" and
    rest: "convert_options (option_spec normalise) written (options(name \<mapsto> v)) = Inr options'"
    by (auto split: option.splits if_splits sum.splits)
  have "(options(name \<mapsto> v)) ''groupby'' = None \<or> (options(name \<mapsto> v)) ''groupby'' = Some ''module''"
  proof (cases "name = ''groupby''")
    case True
    with conv have "convertor = choice normalise [''module'']"
      by (simp add: option_spec_def)
    with v have "v = ''module''" by (simp add: choice_result)
    with True show ?thesis by simp
  next
    case False
    with Cons.prems(2) show ?thesis by simp
  qed
  from Cons.IH [OF rest this] show ?case .
qed

lemma convert_options_error:
  "convert_options spec written options = Inl e \<Longrightarrow> \<exists>name. e = OptionError name"
proof (induction written arbitrary: options)
  case Nil
  then show ?case by simp
next
  case (Cons item written)
  obtain name argument where "item = (name, argument)" by (cases item)
  with Cons show ?case
    by (auto split: option.splits if_splits sum.splits)
qed

lemma convert_options_rejects:
  "(''groupby'', argument) \<in> set written \<Longrightarrow>
   choice normalise [''module''] argument = Inl ValueError \<Longrightarrow>
   \<exists>name. convert_options (option_spec normalise) written options = Inl (OptionError name)"
proof (induction written arbitrary: options)
  case Nil
  then show ?case by simp
next
  case (Cons item written)
  obtain name arg where item: "item = (name, arg)" by (cases item)
  show ?case
  proof (cases "convert_options (option_spec normalise) (item # written) options")
    case (Inl e)
    with convert_options_error [OF Inl] show ?thesis by auto
  next
    case (Inr options')
    from Inr item obtain convertor v where
      conv: "map_of (option_spec normalise) name = Some convertor" and
      v: "convertor arg = Inr v" and
      rest: "convert_options (option_spec normalise) written (options(name \<mapsto> v)) = Inr options'"
      by (auto split: option.splits if_splits sum.splits)
    have "item \<noteq> (''groupby'', argument)"
    proof
      assume "item = (''groupby'', argument)"
      with item have n: "name = ''groupby''" and a: "arg = argument" by simp_all
      from conv n have "convertor = choice normalise [''module'']"
        by (simp add: option_spec_def)
      with v a have "choice normalise [''module''] argument = Inr v" by simp
      with Cons.prems(2) show False by simp
    qed
    with Cons.prems(1) have "(''groupby'', argument) \<in> set written" by simp
    from Cons.IH [OF this Cons.prems(2)] obtain n where
      "convert_options (option_spec normalise) written (options(name \<mapsto> v))
         = Inl (OptionError n)"
      by blast
    with rest show ?thesis by simp
  qed
qed

text \<open>
  Claim C4, amended. The registered group renderer names are the empty string and
  \<open>module\<close>. A \<open>groupby\<close> option whose lower-cased and stripped text is no registered
  name is refused by \<open>option_spec\<close>, which accepts the text \<open>module\<close> and nothing else:
  the directive ends with the error of the option conversion, \<open>run\<close> is not called and no
  nodes are returned. When the options are
  accepted, the group that \<open>run\<close> sees is the default empty string or \<open>module\<close>, a
  registered name, and \<open>run\<close> raises no directive error. So no use of the directive ends
  with the \<open>Invalid group\<close> error of \<open>run\<close>.
\<close>

theorem pyramidroutes_group:
  "fst ` set group_renderer = {[], ''module''}
   \<and> (normalise text \<notin> fst ` set group_renderer
        \<longrightarrow> choice normalise [''module''] (Some text) = Inl ValueError)
   \<and> (choice normalise [''module''] argument \<noteq> Inl ValueError
        \<longleftrightarrow> (\<exists>text. argument = Some text \<and> normalise text = ''module''))
   \<and> ((''groupby'', argument) \<in> set written \<and>
        choice normalise [''module''] argument = Inl ValueError
        \<longrightarrow> (\<exists>name. pyramidroutes normalise w env written = Inl (OptionError name)))
   \<and> (convert_options (option_spec normalise) written Map.empty = Inr options
        \<longrightarrow> pyramidroutes normalise w env written = run w env options \<and>
            (options ''groupby'' = None \<or> options ''groupby'' = Some ''module'') \<and>
            map_of group_renderer (case options ''groupby'' of None \<Rightarrow> [] | Some g \<Rightarrow> g) \<noteq> None \<and>
            run w env options \<noteq> Inl (DirectiveError t a))
   \<and> pyramidroutes normalise w env written \<noteq> Inl (invalid_group group_by)"
proof -
  have names: "fst ` set group_renderer = {[], ''module''}"
    by (simp add: group_renderer_def)
  have refused: "choice normalise [''module''] (Some text) = Inl ValueError"
    if "normalise text \<notin> fst ` set group_renderer"
    using that names by (simp add: choice_def Let_def)
  have only_module: "choice normalise [''module''] argument \<noteq> Inl ValueError
        \<longleftrightarrow> (\<exists>text. argument = Some text \<and> normalise text = ''module'')"
    by (auto simp: choice_def Let_def split: option.splits)
  have rejected: "\<exists>name. pyramidroutes normalise w env written = Inl (OptionError name)"
    if "(''groupby'', argument) \<in> set written \<and>
        choice normalise [''module''] argument = Inl ValueError"
  proof -
    from that convert_options_rejects [of argument written normalise Map.empty]
    obtain name where
      "convert_options (option_spec normalise) written Map.empty = Inl (OptionError name)"
      by blast
    then show ?thesis by (simp add: pyramidroutes_def)
  qed
  have accepted: "pyramidroutes normalise w env written = run w env options \<and>
            (options ''groupby'' = None \<or> options ''groupby'' = Some ''module'') \<and>
            map_of group_renderer (case options ''groupby'' of None \<Rightarrow> [] | Some g \<Rightarrow> g) \<noteq> None \<and>
            run w env options \<noteq> Inl (DirectiveError t' a')"
    if conv: "convert_options (option_spec normalise) written Map.empty = Inr options"
    for options t' a'
  proof -
    from convert_options_groupby [OF conv]
    have g: "options ''groupby'' = None \<or> options ''groupby'' = Some ''module''" by simp
    then have reg: "map_of group_renderer (case options ''groupby'' of None \<Rightarrow> [] | Some g \<Rightarrow> g)
                      \<noteq> None"
      by (auto simp: group_renderer_def)
    from conv have "pyramidroutes normalise w env written = run w env options"
      by (simp add: pyramidroutes_def)
    with g reg run_registered [where options = options, OF reg] show ?thesis by simp
  qed
  have never: "pyramidroutes normalise w env written \<noteq> Inl (invalid_group group_by)"
  proof (cases "convert_options (option_spec normalise) written Map.empty")
    case (Inl e)
    from convert_options_error [OF Inl] Inl show ?thesis
      by (auto simp: pyramidroutes_def invalid_group_def)
  next
    case (Inr options)
    from accepted [OF Inr] show ?thesis by (simp add: invalid_group_def)
  qed
  from names refused only_module rejected accepted [of options t a] never show ?thesis
    by blast
qed

lemma example_convert:
  "convert_options (option_spec (\<lambda>a. a)) [(''groupby'', Some ''module'')] Map.empty
     = Inr [''groupby'' \<mapsto> ''module'']"
  by (simp add: option_spec_def choice_def)

lemma example_refused:
  "pyramidroutes (\<lambda>a. a) example_world example_build_env [(''groupby'', Some ''nosuch'')]
     = Inl (OptionError ''groupby'')"
  by (simp add: pyramidroutes_def option_spec_def choice_def)

text \<open>The directive with the option \<open>prefix\<close> alone: the default group, and nodes.\<close>

lemma example_prefix_convert:
  "convert_options (option_spec (\<lambda>a. a)) [(''prefix'', Some ''/{'')] Map.empty
     = Inr [''prefix'' \<mapsto> ''/{'']"
  by (simp add: option_spec_def unchanged_def)

lemma example_directive_get_routes:
  "directive_get_routes example_world (prepare_env example_build_env) (Some ''/{'') (Some [])
     = Inr (json_to_py edit_document)"
  using example_get_routes
  by (simp add: directive_get_routes_def prepare_env_def example_build_env_def)

lemma example_run:
  "\<exists>nodes env'. run example_world example_build_env [''prefix'' \<mapsto> ''/{'']
                   = Inr (nodes, env')"
  apply (simp add: run_def Let_def example_directive_get_routes group_renderer_def
      default_group_renderer_def)
  apply (simp add: edit_document_def render_route_def Let_def strip_prefix_def str_truthy_def
      startswith_def endswith_def render_request_methods_def get_request_methods_def
      render_response_def render_docstring_def add_source_def prepare_env_def
      example_build_env_def split: sum.splits)
  done

theorem pyramidroutes_group_witness:
  "convert_options (option_spec (\<lambda>a. a)) [(''groupby'', Some ''module'')] Map.empty
     = Inr [''groupby'' \<mapsto> ''module'']
   \<and> pyramidroutes (\<lambda>a. a) example_world example_build_env [(''groupby'', Some ''module'')]
       = run example_world example_build_env [''groupby'' \<mapsto> ''module'']
   \<and> run example_world example_build_env [''groupby'' \<mapsto> ''module'']
       \<noteq> Inl (invalid_group ''module'')
   \<and> choice (\<lambda>a. a) [''module''] (Some ''nosuch'') = Inl ValueError
   \<and> (\<exists>name. pyramidroutes (\<lambda>a. a) example_world example_build_env
                [(''groupby'', Some ''nosuch'')] = Inl (OptionError name))
   \<and> pyramidroutes (\<lambda>a. a) example_world example_build_env [(''groupby'', Some ''nosuch'')]
       = Inl (OptionError ''groupby'')
   \<and> map_of group_renderer (case [''prefix'' \<mapsto> ''/{''] ''groupby'' of None \<Rightarrow> [] | Some g \<Rightarrow> g)
       \<noteq> None
   \<and> (\<exists>nodes env'. pyramidroutes (\<lambda>a. a) example_world example_build_env
                      [(''prefix'', Some ''/{'')] = Inr (nodes, env'))"
proof -
  have unreg: "(\<lambda>a. a) ''nosuch'' \<notin> fst ` set group_renderer"
    by (simp add: group_renderer_def)
  note t = pyramidroutes_group [of "\<lambda>a. a" "''nosuch''" "Some ''nosuch''"
      "[(''groupby'', Some ''module'')]" example_world example_build_env
      "[''groupby'' \<mapsto> ''module'']" "''Invalid group: {0!r}''" "''module''" "''module''"]
  from t unreg have refused: "choice (\<lambda>a. a) [''module''] (Some ''nosuch'') = Inl ValueError"
    by blast
  from t example_convert
  have accepted: "pyramidroutes (\<lambda>a. a) example_world example_build_env [(''groupby'', Some ''module'')]
       = run example_world example_build_env [''groupby'' \<mapsto> ''module'']"
    and no_error: "run example_world example_build_env [''groupby'' \<mapsto> ''module'']
       \<noteq> Inl (invalid_group ''module'')"
    by (simp_all add: invalid_group_def)
  note t' = pyramidroutes_group [of "\<lambda>a. a" "''nosuch''" "Some ''nosuch''"
      "[(''groupby'', Some ''nosuch'')]" example_world example_build_env
      "[''groupby'' \<mapsto> ''module'']" "''Invalid group: {0!r}''" "''module''" "''module''"]
  have "(''groupby'', Some ''nosuch'') \<in> set [(''groupby'', Some ''nosuch'')]" by simp
  with t' refused
  have rejected: "\<exists>name. pyramidroutes (\<lambda>a. a) example_world example_build_env
                [(''groupby'', Some ''nosuch'')] = Inl (OptionError name)"
    by blast
  note t'' = pyramidroutes_group [of "\<lambda>a. a" "''nosuch''" "Some ''nosuch''"
      "[(''prefix'', Some ''/{'')]" example_world example_build_env
      "[''prefix'' \<mapsto> ''/{'']" "''Invalid group: {0!r}''" "''module''" "''module''"]
  from t'' example_prefix_convert
  have default: "map_of group_renderer
         (case [''prefix'' \<mapsto> ''/{''] ''groupby'' of None \<Rightarrow> [] | Some g \<Rightarrow> g) \<noteq> None"
    and called: "pyramidroutes (\<lambda>a. a) example_world example_build_env [(''prefix'', Some ''/{'')]
       = run example_world example_build_env [''prefix'' \<mapsto> ''/{'']"
    by blast+
  from called example_run
  have nodes: "\<exists>nodes env'. pyramidroutes (\<lambda>a. a) example_world example_build_env
                      [(''prefix'', Some ''/{'')] = Inr (nodes, env')"
    by simp
  from example_convert accepted no_error refused rejected example_refused default nodes
  show ?thesis by (intro conjI)
qed

text \<open>
  A \<open>groupby\<close> option with a text that names no group renderer: the directive ends with
  the error of the option, which is not the \<open>Invalid group\<close> error, and \<open>run\<close> is not
  reached.
\<close>

theorem unregistered_group_refused_by_option:
  "map_of group_renderer ''nosuch'' = None
   \<and> convert_options (option_spec (\<lambda>a. a)) [(''groupby'', Some ''nosuch'')] Map.empty
       = Inl (OptionError ''groupby'')
   \<and> pyramidroutes (\<lambda>a. a) example_world example_build_env [(''groupby'', Some ''nosuch'')]
       = Inl (OptionError ''groupby'')
   \<and> Inl (OptionError ''groupby'')
       \<noteq> (Inl (invalid_group ''nosuch'') :: error + (node list \<times> build_env))"
  by (simp add: pyramidroutes_def option_spec_def choice_def group_renderer_def
      invalid_group_def)
section \<open>The helper process\<close>

lemma get_routes_loads:
  "get_routes w config prefix group_by =
     (case popen_communicate w (get_routes_args w config prefix group_by) of
        None \<Rightarrow> Inl OSError
      | Some out \<Rightarrow>
          (case loads_document w out of
             None \<Rightarrow> Inl ValueError
           | Some document \<Rightarrow> Inr (json_to_py document)))"
  by (simp add: get_routes_def loads_document_def split: option.splits)

text \<open>
  Claim C2. \<open>get_routes\<close> starts the interpreter on the helper script with the expanded
  configuration path as third argument, followed by \<open>--group=<group_by>\<close> exactly when
  \<open>group_by\<close> is truthy and then by \<open>--prefix=<prefix>\<close> exactly when \<open>prefix\<close> is
  truthy. It returns a value exactly when the child's standard output decodes and parses
  as one JSON document, and then it returns what \<open>json.loads\<close> builds from that
  document. When the child is the script of this repository, its command line is read
  back as that configuration path, prefix and group, and \<open>json.loads\<close> reads back the
  document that \<open>json.dump\<close> wrote (and no document where \<open>main\<close> raised), the value
  returned is built from the one document that \<open>main\<close> dumps: without a group, the list of
  the routes that \<open>collect\<close> returns for the booted application, filtered by the prefix.
  \<open>get_routes\<close> raises \<open>ValueError\<close> when \<open>main\<close> does not get to the end of its
  \<open>json.dump\<close>.
\<close>

theorem get_routes_invocation:
  assumes child:
      "popen_communicate w (get_routes_args w config prefix group_by)
         = Some (script_stdout s (drop 2 (get_routes_args w config prefix group_by)))"
    and opts:
      "opts = \<lparr>opt_config = expanduser w config,
               opt_prefix = (if str_truthy prefix then prefix else None),
               opt_group = (if str_truthy group_by then group_by else None)\<rparr>"
    and parsed:
      "se_parse_args s (drop 2 (get_routes_args w config prefix group_by)) = Inr opts"
    and written:
      "\<And>document. main (se_pyramid s) (se_bootstrap s) (se_sys_modules s) opts = Inr document
         \<Longrightarrow> loads_document w (se_json_text s document) = Some document"
    and failed:
      "\<And>err. main (se_pyramid s) (se_bootstrap s) (se_sys_modules s) opts = Inl err
         \<Longrightarrow> loads_document w (se_failure_output s err) = None"
  shows "get_routes_args w config prefix group_by =
           [sys_executable w, script_path w, expanduser w config]
             @ (if str_truthy group_by then [''--group='' @ the group_by] else [])
             @ (if str_truthy prefix then [''--prefix='' @ the prefix] else [])
     \<and> (get_routes w config prefix group_by = Inr v \<longleftrightarrow>
          (\<exists>out text document.
             popen_communicate w (get_routes_args w config prefix group_by) = Some out \<and>
             decode_utf8 w out = Some text \<and> parse_json w text = Some document \<and>
             v = json_to_py document))
     \<and> get_routes w config prefix group_by =
          (case main (se_pyramid s) (se_bootstrap s) (se_sys_modules s) opts of
             Inl err \<Rightarrow> Inl ValueError
           | Inr document \<Rightarrow> Inr (json_to_py document))
     \<and> (\<not> str_truthy group_by \<and> se_bootstrap s (expanduser w config) = Inr e \<and>
          collect (se_pyramid s) e = Inr routes
        \<longrightarrow> get_routes w config prefix group_by =
              (case json_dump (VList (map VDict
                      (if str_truthy prefix
                       then filter (\<lambda>r. startswith (pattern_of r) (the prefix)) routes
                       else routes))) of
                 None \<Rightarrow> Inl ValueError
               | Some document \<Rightarrow> Inr (json_to_py document)))"
proof -
  let ?main = "main (se_pyramid s) (se_bootstrap s) (se_sys_modules s) opts"
  have args: "get_routes_args w config prefix group_by =
           [sys_executable w, script_path w, expanduser w config]
             @ (if str_truthy group_by then [''--group='' @ the group_by] else [])
             @ (if str_truthy prefix then [''--prefix='' @ the prefix] else [])"
    by (simp add: get_routes_args_def Let_def)
  have returns: "get_routes w config prefix group_by = Inr v \<longleftrightarrow>
          (\<exists>out text document.
             popen_communicate w (get_routes_args w config prefix group_by) = Some out \<and>
             decode_utf8 w out = Some text \<and> parse_json w text = Some document \<and>
             v = json_to_py document)"
    by (auto simp: get_routes_def split: option.splits)
  have out: "script_stdout s (drop 2 (get_routes_args w config prefix group_by)) =
               (case ?main of Inl err \<Rightarrow> se_failure_output s err
                | Inr document \<Rightarrow> se_json_text s document)"
    using parsed by (simp add: script_stdout_def main_args_def)
  have composed: "get_routes w config prefix group_by =
          (case ?main of Inl err \<Rightarrow> Inl ValueError
           | Inr document \<Rightarrow> Inr (json_to_py document))"
  proof (cases ?main)
    case (Inl err)
    from out Inl failed [OF Inl]
    have "loads_document w (script_stdout s (drop 2 (get_routes_args w config prefix group_by)))
            = None"
      by simp
    with child Inl show ?thesis
      by (simp add: get_routes_loads)
  next
    case (Inr document)
    from out Inr written [OF Inr]
    have "loads_document w (script_stdout s (drop 2 (get_routes_args w config prefix group_by)))
            = Some document"
      by simp
    with child Inr show ?thesis
      by (simp add: get_routes_loads)
  qed
  have dumped: "get_routes w config prefix group_by =
              (case json_dump (VList (map VDict
                      (if str_truthy prefix
                       then filter (\<lambda>r. startswith (pattern_of r) (the prefix)) routes
                       else routes))) of
                 None \<Rightarrow> Inl ValueError
               | Some document \<Rightarrow> Inr (json_to_py document))"
    if "\<not> str_truthy group_by \<and> se_bootstrap s (expanduser w config) = Inr e \<and>
        collect (se_pyramid s) e = Inr routes"
  proof -
    have none: "\<not> str_truthy None" by (simp add: str_truthy_def)
    from that opts none have "?main =
        (case json_dump (VList (map VDict
                      (if str_truthy prefix
                       then filter (\<lambda>r. startswith (pattern_of r) (the prefix)) routes
                       else routes))) of
           None \<Rightarrow> Inl TypeError
         | Some document \<Rightarrow> Inr document)"
      by (simp add: main_def Let_def del: json_dump.simps)
    with composed show ?thesis
      by (simp split: option.splits del: json_dump.simps)
  qed
  from args returns composed dumped show ?thesis by blast
qed

lemma example_loads:
  "loads_document example_world (se_json_text example_script edit_document) = Some edit_document"
  by (simp add: loads_document_def example_world_def example_script_def)

lemma example_dump:
  "json_dump (VList (map VDict
      (filter (\<lambda>r. startswith (pattern_of r) ''/{'') [wiki_entry, edit_entry])))
   = Some edit_document"
  by code_simp

theorem get_routes_invocation_witness:
  "get_routes_args example_world ''~/development.ini'' (Some ''/{'') (Some [])
     = [''/usr/bin/python'', ''wegweiser/extract.py'', ''/home/andy/development.ini'',
        ''--prefix=/{'']
   \<and> main example_pyramid (\<lambda>config. Inr example_env) Map.empty
        \<lparr>opt_config = ''/home/andy/development.ini'', opt_prefix = Some ''/{'', opt_group = None\<rparr>
      = Inr edit_document
   \<and> loads_document example_world (se_json_text example_script edit_document) = Some edit_document
   \<and> collect example_pyramid example_env = Inr [wiki_entry, edit_entry]
   \<and> json_dump (VList (map VDict
          (filter (\<lambda>r. startswith (pattern_of r) ''/{'') [wiki_entry, edit_entry])))
      = Some edit_document
   \<and> get_routes example_world ''~/development.ini'' (Some ''/{'') (Some [])
      = Inr (json_to_py edit_document)"
proof -
  let ?opts =
    "\<lparr>opt_config = ''/home/andy/development.ini'', opt_prefix = Some ''/{'', opt_group = None\<rparr>"
  let ?args = "get_routes_args example_world ''~/development.ini'' (Some ''/{'') (Some [])"
  have m: "main (se_pyramid example_script) (se_bootstrap example_script)
             (se_sys_modules example_script) ?opts = Inr edit_document"
    using example_main by (simp add: example_script_def)
  have child: "popen_communicate example_world ?args
                 = Some (script_stdout example_script (drop 2 ?args))"
    by (simp add: example_world_def)
  have opts: "?opts = \<lparr>opt_config = expanduser example_world ''~/development.ini'',
               opt_prefix = (if str_truthy (Some ''/{'') then Some ''/{'' else None),
               opt_group = (if str_truthy (Some []) then Some [] else None)\<rparr>"
    by (simp add: example_world_def str_truthy_def)
  have parsed: "se_parse_args example_script (drop 2 ?args) = Inr ?opts"
    by (simp add: example_args example_script_def startswith_def)
  have written: "loads_document example_world (se_json_text example_script document) = Some document"
    if "main (se_pyramid example_script) (se_bootstrap example_script)
          (se_sys_modules example_script) ?opts = Inr document" for document
    using that m example_loads by simp
  have failed: "loads_document example_world (se_failure_output example_script err) = None"
    if "main (se_pyramid example_script) (se_bootstrap example_script)
          (se_sys_modules example_script) ?opts = Inl err" for err
    using that m by simp
  note t = get_routes_invocation [OF child opts parsed written failed,
      where e = example_env and routes = "[wiki_entry, edit_entry]"]
  have booted: "\<not> str_truthy (Some []) \<and>
      se_bootstrap example_script (expanduser example_world ''~/development.ini'')
        = Inr example_env \<and>
      collect (se_pyramid example_script) example_env = Inr [wiki_entry, edit_entry]"
    using example_collect by (simp add: str_truthy_def example_script_def)
  have truthy: "str_truthy (Some ''/{'')" by (simp add: str_truthy_def)
  from t [THEN conjunct2, THEN conjunct2, THEN conjunct2] booted
  have "get_routes example_world ''~/development.ini'' (Some ''/{'') (Some []) =
          (case json_dump (VList (map VDict
                  (if str_truthy (Some ''/{'')
                   then filter (\<lambda>r. startswith (pattern_of r) (the (Some ''/{'')))
                          [wiki_entry, edit_entry]
                   else [wiki_entry, edit_entry]))) of
             None \<Rightarrow> Inl ValueError
           | Some document \<Rightarrow> Inr (json_to_py document))"
    by blast
  with truthy
  have "get_routes example_world ''~/development.ini'' (Some ''/{'') (Some []) =
          (case json_dump (VList (map VDict
                  (filter (\<lambda>r. startswith (pattern_of r) ''/{'') [wiki_entry, edit_entry]))) of
             None \<Rightarrow> Inl ValueError
           | Some document \<Rightarrow> Inr (json_to_py document))"
    by (simp only: if_True option.sel)
  then have filtered: "get_routes example_world ''~/development.ini'' (Some ''/{'') (Some [])
          = Inr (json_to_py edit_document)"
    by (simp only: example_dump option.case)
  from example_args example_main example_loads example_collect example_dump filtered
  show ?thesis by (intro conjI)
qed
section \<open>The prefix filter of main\<close>

lemma json_dump_list_all2:
  "json_dump_list xs = Some js \<Longrightarrow> list_all2 (\<lambda>x j. json_dump x = Some j) xs js"
proof (induction xs arbitrary: js)
  case Nil
  then show ?case by simp
next
  case (Cons x xs)
  then show ?case by (auto split: option.splits)
qed

text \<open>
  Claim C10. With \<open>--prefix P\<close> and no \<open>--group\<close>, once the application is booted and
  \<open>collect\<close> has returned its routes, \<open>main\<close> writes the document of the list of those
  routes whose pattern starts with \<open>P\<close>, in the order \<open>collect\<close> gave them (sorted by
  pattern), each route serialised on its own; without the prefix it writes the document
  of the whole list. It raises \<open>TypeError\<close> when a kept route cannot be serialised.
\<close>

theorem main_prefix_filter:
  assumes "opt_group opts = None" and "opt_prefix opts = Some P"
    and "bootstrap (opt_config opts) = Inr e" and "collect fw e = Inr routes"
  shows "main fw bootstrap sys_modules opts =
           (case json_dump (VList (map VDict (filter (\<lambda>r. startswith (pattern_of r) P) routes))) of
              None \<Rightarrow> Inl TypeError
            | Some document \<Rightarrow> Inr document)
     \<and> (main fw bootstrap sys_modules opts = Inr document \<longrightarrow>
          (\<exists>js. document = JArr js \<and>
             list_all2 (\<lambda>r j. json_dump (VDict r) = Some j)
               (filter (\<lambda>r. startswith (pattern_of r) P) routes) js))
     \<and> sorted (map pattern_of (filter (\<lambda>r. startswith (pattern_of r) P) routes))
     \<and> main fw bootstrap sys_modules (opts\<lparr>opt_prefix := None\<rparr>) =
           (case json_dump (VList (map VDict routes)) of
              None \<Rightarrow> Inl TypeError
            | Some document \<Rightarrow> Inr document)"
proof -
  let ?kept = "filter (\<lambda>r. startswith (pattern_of r) P) routes"
  have m: "main fw bootstrap sys_modules opts =
           (case json_dump (VList (map VDict ?kept)) of
              None \<Rightarrow> Inl TypeError
            | Some document \<Rightarrow> Inr document)"
    using assms
    by (cases "P = []")
      (simp_all add: main_def str_truthy_def Let_def startswith_Nil del: json_dump.simps)
  have doc: "\<exists>js. document = JArr js \<and>
                list_all2 (\<lambda>r j. json_dump (VDict r) = Some j) ?kept js"
    if "main fw bootstrap sys_modules opts = Inr document"
  proof -
    from that m obtain js where js: "json_dump_list (map VDict ?kept) = Some js"
      and d: "document = JArr js"
      by (auto split: option.splits)
    from json_dump_list_all2 [OF js] have "list_all2 (\<lambda>r j. json_dump (VDict r) = Some j) ?kept js"
      by (simp add: list_all2_map1)
    with d show ?thesis by blast
  qed
  have "sorted (map pattern_of routes)"
    using collect_entries [OF assms(4)] by auto
  then have s: "sorted (map pattern_of ?kept)"
    by (rule sorted_filter)
  have u: "main fw bootstrap sys_modules (opts\<lparr>opt_prefix := None\<rparr>) =
           (case json_dump (VList (map VDict routes)) of
              None \<Rightarrow> Inl TypeError
            | Some document \<Rightarrow> Inr document)"
    using assms by (simp add: main_def str_truthy_def Let_def del: json_dump.simps)
  from m doc s u show ?thesis by blast
qed

theorem main_prefix_filter_witness:
  "collect example_pyramid example_env = Inr [wiki_entry, edit_entry]
   \<and> filter (\<lambda>r. startswith (pattern_of r) ''/{'') [wiki_entry, edit_entry] = [edit_entry]
   \<and> json_dump (VList [VDict edit_entry]) = Some edit_document
   \<and> main example_pyramid (\<lambda>config. Inr example_env) Map.empty
        \<lparr>opt_config = ''/home/andy/development.ini'', opt_prefix = Some ''/{'', opt_group = None\<rparr>
      = Inr edit_document"
proof -
  let ?opts =
    "\<lparr>opt_config = ''/home/andy/development.ini'', opt_prefix = Some ''/{'', opt_group = None\<rparr>"
  have f: "filter (\<lambda>r. startswith (pattern_of r) ''/{'') [wiki_entry, edit_entry] = [edit_entry]"
    by (simp add: pattern_of_def wiki_entry_def edit_entry_def startswith_def)
  have d: "json_dump (VList [VDict edit_entry]) = Some edit_document"
    by code_simp
  have g: "opt_group ?opts = None" and p: "opt_prefix ?opts = Some ''/{''"
    by simp_all
  note t = main_prefix_filter [where opts = ?opts and bootstrap = "\<lambda>config. Inr example_env"
      and sys_modules = Map.empty, OF g p refl example_collect, THEN conjunct1]
  have m: "main example_pyramid (\<lambda>config. Inr example_env) Map.empty ?opts = Inr edit_document"
    unfolding t f by (simp only: list.map d option.case)
  from example_collect f d m show ?thesis by (intro conjI)
qed

end
